theory Spec2Isabelle
  imports Main "HOL-Library.Monad_Syntax"
begin

section \<open>Python text\<close>

text \<open>
  A Python \<open>str\<close> is modelled as a HOL \<open>string\<close> whose characters stand for the code
  points below 256. The library functions the launchers call on text (\<open>str.strip\<close>,
  \<open>str.lower\<close>, \<open>str.join\<close>, \<open>int\<close>, \<open>str\<close> of an integer) are written out for that
  range. The limit on the number of digits that recent interpreters put on \<open>int\<close> and
  \<open>str\<close> (4300 unless configured otherwise) is left out.
\<close>

definition isspace :: "char \<Rightarrow> bool" where
  "isspace c =
     (let n = (of_char c :: nat)
      in (9 \<le> n \<and> n \<le> 13) \<or> (28 \<le> n \<and> n \<le> 32) \<or> n = 133 \<or> n = 160)"

definition lstrip :: "string \<Rightarrow> string" where
  "lstrip s = dropWhile isspace s"

definition rstrip :: "string \<Rightarrow> string" where
  "rstrip s = rev (dropWhile isspace (rev s))"

definition strip :: "string \<Rightarrow> string" where
  "strip s = rstrip (lstrip s)"

definition lower_char :: "char \<Rightarrow> char" where
  "lower_char c =
     (let n = (of_char c :: nat)
      in if (65 \<le> n \<and> n \<le> 90) \<or> (192 \<le> n \<and> n \<le> 222 \<and> n \<noteq> 215)
         then char_of (n + 32) else c)"

definition lower :: "string \<Rightarrow> string" where
  "lower s = map lower_char s"

fun join :: "string \<Rightarrow> string list \<Rightarrow> string" where
  "join sep [] = []"
| "join sep [x] = x"
| "join sep (x # y # ys) = x @ sep @ join sep (y # ys)"

text \<open>\<open>str(n)\<close> for an integer: the decimal digits, with a minus sign when negative.\<close>

definition digit_char :: "nat \<Rightarrow> char" where
  "digit_char d = char_of (48 + d)"

fun str_nat :: "nat \<Rightarrow> string" where
  "str_nat n = (if n < 10 then [digit_char n] else str_nat (n div 10) @ [digit_char (n mod 10)])"

definition str_int :: "int \<Rightarrow> string" where
  "str_int i = (if i < 0 then CHR ''-'' # str_nat (nat (- i)) else str_nat (nat i))"

text \<open>
  \<open>int(s)\<close>: surrounding whitespace is dropped, one sign is allowed, then decimal digits
  with single underscores between digits. \<open>None\<close> stands for ValueError. The whitespace
  \<open>int\<close> drops is narrower than that of \<open>str.strip\<close>: the separators U+001C to U+001F
  are not part of it.
\<close>

definition int_space :: "char \<Rightarrow> bool" where
  "int_space c =
     (let n = (of_char c :: nat)
      in (9 \<le> n \<and> n \<le> 13) \<or> n = 32 \<or> n = 133 \<or> n = 160)"

definition int_strip :: "string \<Rightarrow> string" where
  "int_strip s = rev (dropWhile int_space (rev (dropWhile int_space s)))"

definition digit_val :: "char \<Rightarrow> nat option" where
  "digit_val c =
     (let n = (of_char c :: nat) in if 48 \<le> n \<and> n \<le> 57 then Some (n - 48) else None)"

fun digits_from :: "bool \<Rightarrow> nat \<Rightarrow> string \<Rightarrow> nat option" where
  "digits_from after_underscore acc [] = (if after_underscore then None else Some acc)"
| "digits_from after_underscore acc (c # cs) =
     (if c = CHR ''_'' then
        (if after_underscore then None else digits_from True acc cs)
      else
        (case digit_val c of
           None \<Rightarrow> None
         | Some v \<Rightarrow> digits_from False (acc * 10 + v) cs))"

definition py_nat :: "string \<Rightarrow> nat option" where
  "py_nat s =
     (case s of
        [] \<Rightarrow> None
      | c # cs \<Rightarrow> (case digit_val c of None \<Rightarrow> None | Some v \<Rightarrow> digits_from False v cs))"

definition py_int :: "string \<Rightarrow> int option" where
  "py_int s =
     (case int_strip s of
        [] \<Rightarrow> None
      | c # cs \<Rightarrow>
          if c = CHR ''-'' then map_option (\<lambda>n. - int n) (py_nat cs)
          else if c = CHR ''+'' then map_option int (py_nat cs)
          else map_option int (py_nat (c # cs)))"

text \<open>The test \<open>s.lower() in ("1", "true", "yes", "on")\<close> of the toggle variables.\<close>

definition truthy :: "string \<Rightarrow> bool" where
  "truthy s = (lower s \<in> set [''1'', ''true'', ''yes'', ''on''])"

section \<open>Paths\<close>

text \<open>
  \<open>pathlib.Path\<close> on a POSIX system: a path is a root (\<open>''''\<close>, \<open>/\<close> or \<open>//\<close>) and its
  components; empty components and \<open>.\<close> are dropped when text is parsed, and \<open>str\<close> puts
  the components together again.
\<close>

datatype path = Path (root: string) (parts: "string list")

fun split_on :: "char \<Rightarrow> string \<Rightarrow> string list" where
  "split_on sep [] = [[]]"
| "split_on sep (c # cs) =
     (if c = sep then [] # split_on sep cs
      else (case split_on sep cs of
              [] \<Rightarrow> [[c]]
            | r # rs \<Rightarrow> (c # r) # rs))"

definition splitroot :: "string \<Rightarrow> string \<times> string" where
  "splitroot p =
     (if take 1 p \<noteq> ''/'' then ([], p)
      else if take 1 (drop 1 p) \<noteq> ''/'' \<or> take 1 (drop 2 p) = ''/'' then (''/'', drop 1 p)
      else (take 2 p, drop 2 p))"

definition PurePath :: "string \<Rightarrow> path" where
  "PurePath s =
     (case splitroot s of
        (r, rel) \<Rightarrow> Path r (filter (\<lambda>x. x \<noteq> [] \<and> x \<noteq> ''.'') (split_on CHR ''/'' rel)))"

definition str_path :: "path \<Rightarrow> string" where
  "str_path p =
     (if root p \<noteq> [] then root p @ join ''/'' (parts p)
      else if parts p = [] then ''.''
      else join ''/'' (parts p))"

definition posix_join :: "string \<Rightarrow> string \<Rightarrow> string" where
  "posix_join a b =
     (if take 1 b = ''/'' then b
      else if a = [] \<or> last a = CHR ''/'' then a @ b
      else a @ ''/'' @ b)"

text \<open>The operator \<open>p / name\<close>.\<close>

definition truediv :: "path \<Rightarrow> string \<Rightarrow> path" where
  "truediv p name = PurePath (posix_join (str_path p) name)"

section \<open>The world a launcher runs in\<close>

text \<open>
  What \<open>subprocess.run\<close> does with a command: it raises FileNotFoundError, it raises
  another exception (with its message), or the child ends with a return code, having
  written to its standard output and standard error. The return code is the exit status
  of a child that exited, from 0 to 255, and the negated signal number of a child that a
  signal killed.
\<close>

datatype child =
    FileNotFoundError
  | Raised string
  | Ended int string string

text \<open>
  The surroundings of one invocation: the environment variables, the directory of the
  script (already resolved), which paths are regular files, and the outcome of running a
  command. A Python float is kept as its \<open>repr\<close>, which identifies it; \<open>float_repr s\<close> is
  the \<open>repr\<close> of \<open>float(s)\<close>, or \<open>None\<close> when \<open>float(s)\<close> raises ValueError.
\<close>

record world =
  environ :: "string \<Rightarrow> string option"
  script_dir :: string
  is_file :: "string \<Rightarrow> bool"
  float_repr :: "string \<Rightarrow> string option"
  subprocess_run :: "string list \<Rightarrow> child"

definition getenv :: "world \<Rightarrow> string \<Rightarrow> string \<Rightarrow> string" where
  "getenv w name dflt = (case environ w name of None \<Rightarrow> dflt | Some v \<Rightarrow> v)"

text \<open>
  What an invocation does, in order: one \<open>Out\<close> or \<open>Err\<close> for each \<open>print\<close> to standard
  output or standard error (\<open>print\<close> ends the text with a newline), \<open>Spawn\<close> for each
  call of \<open>subprocess.run\<close>, and what argparse itself writes before it leaves. A child that
  inherits the launcher's streams writes to them by itself; that is not an event of the
  launcher.
\<close>

datatype usage_error =
    Invalid_value string string
  | Unrecognized_arguments "string list"

datatype parser_exit = Help_exit | Usage_exit usage_error

datatype event =
    Out string
  | Err string
  | Spawn "string list"
  | Argparse_help
  | Argparse_error usage_error

text \<open>
  How the interpreter ends: \<open>sys.exit(n)\<close>, the end of the script, or an exception nobody
  caught (a traceback and status 1). The status of the process is the low eight bits of
  the code given to \<open>sys.exit\<close>: \<open>sys.exit(-9)\<close> ends with status 247, \<open>sys.exit(256)\<close>
  with status 0.
\<close>

datatype ending = SysExit int | Returned | Uncaught string

fun exit_status :: "ending \<Rightarrow> int" where
  "exit_status (SysExit n) = n mod 256"
| "exit_status Returned = 0"
| "exit_status (Uncaught e) = 1"

record run =
  events :: "event list"
  ending :: ending

definition spawned :: "run \<Rightarrow> bool" where
  "spawned r = (\<exists>c \<in> set (events r). case c of Spawn cmd \<Rightarrow> True | _ \<Rightarrow> False)"

definition stdout_of :: "run \<Rightarrow> string list" where
  "stdout_of r = concat (map (\<lambda>e. case e of Out s \<Rightarrow> [s] | _ \<Rightarrow> []) (events r))"

definition stderr_of :: "run \<Rightarrow> string list" where
  "stderr_of r = concat (map (\<lambda>e. case e of Err s \<Rightarrow> [s] | _ \<Rightarrow> []) (events r))"

definition quoted :: "string \<Rightarrow> string" where
  "quoted s = [CHR 0x27] @ s @ [CHR 0x27]"

section \<open>chat.py\<close>

text \<open>The module-level configuration. \<open>None\<close>: one of the \<open>int\<close> calls raised ValueError.\<close>

record chat_module =
  DATA_DIR :: string
  DEFAULT_MODEL_PATH :: string
  DEFAULT_PORT :: int
  DEFAULT_NGL :: int
  DEFAULT_CTX :: int
  DEFAULT_BATCH_SIZE :: int
  DEFAULT_UBATCH_SIZE :: int
  DEFAULT_CACHE_TYPE_K :: string
  DEFAULT_CACHE_TYPE_V :: string
  DEFAULT_FLASH_ATTN :: bool
  DEFAULT_MLOCK :: bool
  LLAMA_SERVER_EXECUTABLE :: string

definition chat_data_dir :: "world \<Rightarrow> string" where
  "chat_data_dir w =
     getenv w ''DATA_DIR'' (str_path (truediv (PurePath (script_dir w)) ''data''))"

definition chat_model_path :: "world \<Rightarrow> string" where
  "chat_model_path w =
     getenv w ''MODEL_PATH''
       (str_path (truediv (PurePath (chat_data_dir w)) ''gemma-3-4b-it-Q5_K_M.gguf''))"

definition chat_module_init :: "world \<Rightarrow> chat_module option" where
  "chat_module_init w = do {
     port \<leftarrow> py_int (getenv w ''SERVER_PORT'' ''4000'');
     ngl \<leftarrow> py_int (getenv w ''N_GPU_LAYERS'' ''48'');
     ctx \<leftarrow> py_int (getenv w ''CONTEXT_SIZE'' ''8192'');
     batch \<leftarrow> py_int (getenv w ''BATCH_SIZE'' ''512'');
     ubatch \<leftarrow> py_int (getenv w ''UBATCH_SIZE'' ''128'');
     Some \<lparr> DATA_DIR = chat_data_dir w,
            DEFAULT_MODEL_PATH = chat_model_path w,
            DEFAULT_PORT = port,
            DEFAULT_NGL = ngl,
            DEFAULT_CTX = ctx,
            DEFAULT_BATCH_SIZE = batch,
            DEFAULT_UBATCH_SIZE = ubatch,
            DEFAULT_CACHE_TYPE_K = getenv w ''CACHE_TYPE_K'' ''q5_1'',
            DEFAULT_CACHE_TYPE_V = getenv w ''CACHE_TYPE_V'' ''q5_1'',
            DEFAULT_FLASH_ATTN = truthy (getenv w ''FLASH_ATTN'' ''1''),
            DEFAULT_MLOCK = truthy (getenv w ''MLOCK'' ''1''),
            LLAMA_SERVER_EXECUTABLE = getenv w ''LLAMA_SERVER_EXECUTABLE'' ''llama-server'' \<rparr>
   }"

text \<open>The namespace \<open>parse_args\<close> returns.\<close>

record chat_args =
  model :: path
  port :: int
  n_gpu_layers :: int
  context_size :: int
  batch_size :: int
  ubatch_size :: int
  cache_type_k :: string
  cache_type_v :: string
  flash_attn :: bool
  mlock :: bool

text \<open>
  The command line as argparse groups it: the occurrences of the declared options, from
  left to right, each valued option with the text given for it; \<open>-h\<close>; and the words the
  parser does not know. How argparse finds the options in the words (abbreviations,
  \<open>--opt=value\<close>, an option whose value is missing) is not modelled.
\<close>

datatype chat_item =
    Chat_model string
  | Chat_port string
  | Chat_n_gpu_layers string
  | Chat_context_size string
  | Chat_batch_size string
  | Chat_ubatch_size string
  | Chat_cache_type_k string
  | Chat_cache_type_v string
  | Chat_flash_attn
  | Chat_no_flash_attn
  | Chat_mlock
  | Chat_no_mlock
  | Chat_help
  | Chat_unrecognized string

text \<open>
  The defaults of the namespace. A default that is text goes through the option's type
  (\<open>Path\<close> for the model); \<open>flash_attn\<close> and \<open>mlock\<close> take the default of the first option
  declared for them, the \<open>store_true\<close> one.
\<close>

definition chat_defaults :: "chat_module \<Rightarrow> chat_args" where
  "chat_defaults m =
     \<lparr> model = PurePath (DEFAULT_MODEL_PATH m),
       port = DEFAULT_PORT m,
       n_gpu_layers = DEFAULT_NGL m,
       context_size = DEFAULT_CTX m,
       batch_size = DEFAULT_BATCH_SIZE m,
       ubatch_size = DEFAULT_UBATCH_SIZE m,
       cache_type_k = DEFAULT_CACHE_TYPE_K m,
       cache_type_v = DEFAULT_CACHE_TYPE_V m,
       flash_attn = DEFAULT_FLASH_ATTN m,
       mlock = DEFAULT_MLOCK m \<rparr>"

definition int_value :: "string \<Rightarrow> string \<Rightarrow> parser_exit + int" where
  "int_value opt s =
     (case py_int s of
        None \<Rightarrow> Inl (Usage_exit (Invalid_value opt s))
      | Some n \<Rightarrow> Inr n)"

fun chat_take_action :: "chat_args \<Rightarrow> chat_item \<Rightarrow> parser_exit + chat_args" where
  "chat_take_action a (Chat_model s) = Inr (a\<lparr>model := PurePath s\<rparr>)"
| "chat_take_action a (Chat_port s) =
     (case int_value ''--port'' s of Inl e \<Rightarrow> Inl e | Inr n \<Rightarrow> Inr (a\<lparr>port := n\<rparr>))"
| "chat_take_action a (Chat_n_gpu_layers s) =
     (case int_value ''-ngl/--n-gpu-layers'' s of
        Inl e \<Rightarrow> Inl e | Inr n \<Rightarrow> Inr (a\<lparr>n_gpu_layers := n\<rparr>))"
| "chat_take_action a (Chat_context_size s) =
     (case int_value ''-c/--context-size'' s of
        Inl e \<Rightarrow> Inl e | Inr n \<Rightarrow> Inr (a\<lparr>context_size := n\<rparr>))"
| "chat_take_action a (Chat_batch_size s) =
     (case int_value ''-b/--batch-size'' s of
        Inl e \<Rightarrow> Inl e | Inr n \<Rightarrow> Inr (a\<lparr>batch_size := n\<rparr>))"
| "chat_take_action a (Chat_ubatch_size s) =
     (case int_value ''-ub/--ubatch-size'' s of
        Inl e \<Rightarrow> Inl e | Inr n \<Rightarrow> Inr (a\<lparr>ubatch_size := n\<rparr>))"
| "chat_take_action a (Chat_cache_type_k s) = Inr (a\<lparr>cache_type_k := s\<rparr>)"
| "chat_take_action a (Chat_cache_type_v s) = Inr (a\<lparr>cache_type_v := s\<rparr>)"
| "chat_take_action a Chat_flash_attn = Inr (a\<lparr>flash_attn := True\<rparr>)"
| "chat_take_action a Chat_no_flash_attn = Inr (a\<lparr>flash_attn := False\<rparr>)"
| "chat_take_action a Chat_mlock = Inr (a\<lparr>mlock := True\<rparr>)"
| "chat_take_action a Chat_no_mlock = Inr (a\<lparr>mlock := False\<rparr>)"
| "chat_take_action a Chat_help = Inl Help_exit"
| "chat_take_action a (Chat_unrecognized s) = Inr a"

fun chat_scan :: "chat_args \<Rightarrow> chat_item list \<Rightarrow> parser_exit + chat_args" where
  "chat_scan a [] = Inr a"
| "chat_scan a (x # xs) =
     (case chat_take_action a x of
        Inl e \<Rightarrow> Inl e
      | Inr a' \<Rightarrow> chat_scan a' xs)"

fun chat_extras :: "chat_item list \<Rightarrow> string list" where
  "chat_extras [] = []"
| "chat_extras (Chat_unrecognized s # xs) = s # chat_extras xs"
| "chat_extras (x # xs) = chat_extras xs"

definition chat_parse_args :: "chat_module \<Rightarrow> chat_item list \<Rightarrow> parser_exit + chat_args" where
  "chat_parse_args m argv =
     (case chat_scan (chat_defaults m) argv of
        Inl e \<Rightarrow> Inl e
      | Inr a \<Rightarrow>
          if chat_extras argv = [] then Inr a
          else Inl (Usage_exit (Unrecognized_arguments (chat_extras argv))))"

definition chat_command :: "chat_module \<Rightarrow> chat_args \<Rightarrow> string list" where
  "chat_command m a =
     [ LLAMA_SERVER_EXECUTABLE m,
       ''-m'', str_path (model a),
       ''--port'', str_int (port a),
       ''-ngl'', str_int (n_gpu_layers a),
       ''-c'', str_int (context_size a),
       ''-b'', str_int (batch_size a),
       ''-ub'', str_int (ubatch_size a),
       ''-ctk'', cache_type_k a,
       ''-ctv'', cache_type_v a ]
     @ (if flash_attn a then [''-fa''] else [])
     @ (if mlock a then [''--mlock''] else [])"

text \<open>The body of \<open>main\<close> after \<open>parse_args\<close>.\<close>

definition chat_run :: "world \<Rightarrow> chat_module \<Rightarrow> chat_args \<Rightarrow> run" where
  "chat_run w m a =
     (if \<not> is_file w (str_path (model a)) then
        \<lparr> events = [Err (''Error: Model file not found at '' @ str_path (model a))],
          ending = SysExit 1 \<rparr>
      else
        let command = chat_command m a;
            started = [Out (''Starting server: '' @ join '' '' command), Spawn command]
        in case subprocess_run w command of
             Ended returncode out err \<Rightarrow>
               \<lparr> events = started @
                   [Out (''\<newline>Server exited with code: '' @ str_int returncode)],
                 ending = SysExit returncode \<rparr>
           | FileNotFoundError \<Rightarrow>
               \<lparr> events = started @
                   [Err (''Error: '' @ quoted (LLAMA_SERVER_EXECUTABLE m) @ '' command not found.''),
                    Err ''Please ensure llama.cpp is built and its binaries are in your PATH.''],
                 ending = SysExit 1 \<rparr>
           | Raised e \<Rightarrow>
               \<lparr> events = started @ [Err (''An error occurred: '' @ e)],
                 ending = SysExit 1 \<rparr>)"

definition parser_left :: "parser_exit \<Rightarrow> run" where
  "parser_left e =
     (case e of
        Help_exit \<Rightarrow> \<lparr> events = [Argparse_help], ending = SysExit 0 \<rparr>
      | Usage_exit u \<Rightarrow> \<lparr> events = [Argparse_error u], ending = SysExit 2 \<rparr>)"

definition chat_main :: "world \<Rightarrow> chat_item list \<Rightarrow> run" where
  "chat_main w argv =
     (case chat_module_init w of
        None \<Rightarrow> \<lparr> events = [], ending = Uncaught ''ValueError'' \<rparr>
      | Some m \<Rightarrow>
          (case chat_parse_args m argv of
             Inl e \<Rightarrow> parser_left e
           | Inr a \<Rightarrow> chat_run w m a))"

section \<open>watch\_gpu.py\<close>

definition watch_gpu_main :: "world \<Rightarrow> run" where
  "watch_gpu_main w =
     (let command = [''watch'', ''-n'', ''1'', ''nvidia-smi''];
          started = [Out (''Running: '' @ join '' '' command), Spawn command]
      in case subprocess_run w command of
           Ended returncode out err \<Rightarrow>
             \<lparr> events = started @
                 [Out (''\<newline>Watch exited with code: '' @ str_int returncode)],
               ending = SysExit returncode \<rparr>
         | FileNotFoundError \<Rightarrow>
             \<lparr> events = started @
                 [Err (''Error: '' @ quoted ''watch'' @ '' or '' @ quoted ''nvidia-smi'' @
                       '' command not found.''),
                  Err (''Please ensure '' @ quoted ''watch'' @
                       '' and NVIDIA drivers/tools are installed and in your PATH.'')],
               ending = SysExit 1 \<rparr>
         | Raised e \<Rightarrow>
             \<lparr> events = started @ [Err (''An error occurred: '' @ e)],
               ending = SysExit 1 \<rparr>)"

section \<open>ocr\_meta.py and ocr\_tx.py\<close>

text \<open>
  The two scripts are the same text but for the default of \<open>N_PREDICT\<close> and for the prompt
  (the name of its environment variable and its default), so one model takes the script
  as a parameter.
\<close>

datatype script = Ocr_meta | Ocr_tx

definition METADATA_PROMPT_text :: string where
  \<open>METADATA_PROMPT_text =
     ''Extract metadata from the bank statement image into a single JSON object. Output *only* the JSON object, nothing else.\<newline>'' @
     ''\<newline>'' @
     ''Required JSON keys and extraction rules:\<newline>'' @
     ''*   `bank_name`: (string) Name/logo of the bank.\<newline>'' @
     ''*   `account_holder_name`: (string) Full name of the primary account holder only. Exclude titles (Mr., Miss) or address details if present on the same line.\<newline>'' @
     ''*   `account_holder_address`: (string or null) Full address. Use `null` if not found.\<newline>'' @
     ''*   `account_number`: (string) Account identifier (often labeled "ACCOUNT NO").\<newline>'' @
     ''*   `account_type`: (string) Account type description (e.g., "SAVINGS ACCOUNT GENERAL").\<newline>'' @
     ''*   `currency`: (string) Currency code (e.g., "LKR").\<newline>'' @
     ''*   `statement_date`: (string) The "as at" or statement generation date, **formatted strictly as YYYY-MM-DD**. Infer the year if necessary based on context.\<newline>'' @
     ''*   `total_debits`: (string) Total debit amount from the summary/total row. Extract as text.\<newline>'' @
     ''*   `total_credits`: (string) Total credit amount from the summary/total row. Extract as text.\<newline>'' @
     ''*   `final_balance`: (string) Final account balance (often labeled "BALANCE AS AT DATE"). Extract as text.\<newline>'' @
     ''\<newline>'' @
     ''Ensure the output is a single, valid JSON object starting with `{` and ending with `}`.''\<close>

definition TRANSACTIONS_PROMPT_text :: string where
  \<open>TRANSACTIONS_PROMPT_text =
     ''Extract transaction rows from the bank statement image. Output *only* a single JSON array of arrays, nothing else.\<newline>'' @
     ''\<newline>'' @
     ''Identify the main transaction table data rows (between the header row and the 'TOTAL' row).\<newline>'' @
     ''\<newline>'' @
     ''For each data row, create an inner array containing exactly 6 string elements. These elements **must** correspond to the table columns in this order:\<newline>'' @
     ''*   [0]: Date (Extract text exactly as seen, e.g., "01.02.25" or "28/03").\<newline>'' @
     ''*   [1]: Reference Number (Use "" if blank/not applicable).\<newline>'' @
     ''*   [2]: Particulars/Description.\<newline>'' @
     ''*   [3]: Debits Amount (Use "" if blank. Extract as text).\<newline>'' @
     ''*   [4]: Credits Amount (Use "" if blank. Extract as text).\<newline>'' @
     ''*   [5]: Running Balance (Extract as text).\<newline>'' @
     ''\<newline>'' @
     ''CRITICAL: The output must be only the JSON array, starting with `[` and ending with `]`. Each inner array must have exactly 6 string elements in the specified order. Do not include header or total rows.''\<close>

fun prompt_variable :: "script \<Rightarrow> string" where
  "prompt_variable Ocr_meta = ''METADATA_PROMPT''"
| "prompt_variable Ocr_tx = ''TRANSACTIONS_PROMPT''"

fun prompt_text :: "script \<Rightarrow> string" where
  "prompt_text Ocr_meta = METADATA_PROMPT_text"
| "prompt_text Ocr_tx = TRANSACTIONS_PROMPT_text"

fun n_predict_text :: "script \<Rightarrow> string" where
  "n_predict_text Ocr_meta = ''1024''"
| "n_predict_text Ocr_tx = ''2048''"

text \<open>The module-level configuration. \<open>None\<close>: \<open>int\<close> or \<open>float\<close> raised ValueError.\<close>

record ocr_module =
  DATA_DIR :: string
  DEFAULT_MODEL_PATH :: string
  DEFAULT_MMPROJ_PATH :: string
  DEFAULT_IMAGE_PATH :: string
  DEFAULT_NGL :: int
  DEFAULT_THREADS :: int
  DEFAULT_CTX :: int
  DEFAULT_N_PREDICT :: int
  DEFAULT_TEMP :: string
  DEFAULT_CACHE_TYPE_K :: string
  DEFAULT_CACHE_TYPE_V :: string
  DEFAULT_FLASH_ATTN :: bool
  DEFAULT_MLOCK :: bool
  LLAMA_CLI_EXECUTABLE :: string
  PROMPT :: string

definition ocr_data_dir :: "world \<Rightarrow> string" where
  "ocr_data_dir w =
     getenv w ''DATA_DIR'' (str_path (truediv (PurePath (script_dir w)) ''data''))"

definition ocr_data_file :: "world \<Rightarrow> string \<Rightarrow> string" where
  "ocr_data_file w name = str_path (truediv (PurePath (ocr_data_dir w)) name)"

definition ocr_module_init :: "script \<Rightarrow> world \<Rightarrow> ocr_module option" where
  "ocr_module_init k w = do {
     ngl \<leftarrow> py_int (getenv w ''N_GPU_LAYERS'' ''34'');
     threads \<leftarrow> py_int (getenv w ''THREADS'' ''3'');
     ctx \<leftarrow> py_int (getenv w ''CONTEXT_SIZE'' ''16384'');
     n_predict \<leftarrow> py_int (getenv w ''N_PREDICT'' (n_predict_text k));
     temp \<leftarrow> float_repr w (getenv w ''TEMPERATURE'' ''0.3'');
     Some \<lparr> DATA_DIR = ocr_data_dir w,
            DEFAULT_MODEL_PATH =
              getenv w ''MODEL_PATH'' (ocr_data_file w ''gemma-3-4b-it-Q5_K_M.gguf''),
            DEFAULT_MMPROJ_PATH = getenv w ''MMPROJ_PATH'' (ocr_data_file w ''mmproj-BF16.gguf''),
            DEFAULT_IMAGE_PATH = getenv w ''IMAGE_PATH'' (ocr_data_file w ''temp.png''),
            DEFAULT_NGL = ngl,
            DEFAULT_THREADS = threads,
            DEFAULT_CTX = ctx,
            DEFAULT_N_PREDICT = n_predict,
            DEFAULT_TEMP = temp,
            DEFAULT_CACHE_TYPE_K = getenv w ''CACHE_TYPE_K'' ''q4_1'',
            DEFAULT_CACHE_TYPE_V = getenv w ''CACHE_TYPE_V'' ''q4_1'',
            DEFAULT_FLASH_ATTN = truthy (getenv w ''FLASH_ATTN'' ''1''),
            DEFAULT_MLOCK = truthy (getenv w ''MLOCK'' ''1''),
            LLAMA_CLI_EXECUTABLE = getenv w ''LLAMA_CLI_EXECUTABLE'' ''llama-gemma3-cli'',
            PROMPT = getenv w (prompt_variable k) (prompt_text k) \<rparr>
   }"

record ocr_args =
  ngl :: int
  threads :: int
  context_size :: int
  n_predict :: int
  temp :: string
  cache_type_k :: string
  cache_type_v :: string
  model :: path
  mmproj :: path
  image :: path

text \<open>The options these scripts declare; there is none for flash attention or mlock.\<close>

datatype ocr_item =
    Ocr_ngl string
  | Ocr_threads string
  | Ocr_ctx string
  | Ocr_n_predict string
  | Ocr_temp string
  | Ocr_cache_type_k string
  | Ocr_cache_type_v string
  | Ocr_model string
  | Ocr_mmproj string
  | Ocr_image string
  | Ocr_help
  | Ocr_unrecognized string

definition ocr_defaults :: "ocr_module \<Rightarrow> ocr_args" where
  "ocr_defaults m =
     \<lparr> ngl = DEFAULT_NGL m,
       threads = DEFAULT_THREADS m,
       context_size = DEFAULT_CTX m,
       n_predict = DEFAULT_N_PREDICT m,
       temp = DEFAULT_TEMP m,
       cache_type_k = DEFAULT_CACHE_TYPE_K m,
       cache_type_v = DEFAULT_CACHE_TYPE_V m,
       model = PurePath (DEFAULT_MODEL_PATH m),
       mmproj = PurePath (DEFAULT_MMPROJ_PATH m),
       image = PurePath (DEFAULT_IMAGE_PATH m) \<rparr>"

definition float_value :: "world \<Rightarrow> string \<Rightarrow> string \<Rightarrow> parser_exit + string" where
  "float_value w opt s =
     (case float_repr w s of
        None \<Rightarrow> Inl (Usage_exit (Invalid_value opt s))
      | Some x \<Rightarrow> Inr x)"

fun ocr_take_action :: "world \<Rightarrow> ocr_args \<Rightarrow> ocr_item \<Rightarrow> parser_exit + ocr_args" where
  "ocr_take_action w a (Ocr_ngl s) =
     (case int_value ''--ngl'' s of Inl e \<Rightarrow> Inl e | Inr n \<Rightarrow> Inr (a\<lparr>ngl := n\<rparr>))"
| "ocr_take_action w a (Ocr_threads s) =
     (case int_value ''--threads'' s of Inl e \<Rightarrow> Inl e | Inr n \<Rightarrow> Inr (a\<lparr>threads := n\<rparr>))"
| "ocr_take_action w a (Ocr_ctx s) =
     (case int_value ''-c/--ctx'' s of Inl e \<Rightarrow> Inl e | Inr n \<Rightarrow> Inr (a\<lparr>context_size := n\<rparr>))"
| "ocr_take_action w a (Ocr_n_predict s) =
     (case int_value ''-n/--n-predict'' s of
        Inl e \<Rightarrow> Inl e | Inr n \<Rightarrow> Inr (a\<lparr>n_predict := n\<rparr>))"
| "ocr_take_action w a (Ocr_temp s) =
     (case float_value w ''--temp'' s of Inl e \<Rightarrow> Inl e | Inr x \<Rightarrow> Inr (a\<lparr>temp := x\<rparr>))"
| "ocr_take_action w a (Ocr_cache_type_k s) = Inr (a\<lparr>cache_type_k := s\<rparr>)"
| "ocr_take_action w a (Ocr_cache_type_v s) = Inr (a\<lparr>cache_type_v := s\<rparr>)"
| "ocr_take_action w a (Ocr_model s) = Inr (a\<lparr>model := PurePath s\<rparr>)"
| "ocr_take_action w a (Ocr_mmproj s) = Inr (a\<lparr>mmproj := PurePath s\<rparr>)"
| "ocr_take_action w a (Ocr_image s) = Inr (a\<lparr>image := PurePath s\<rparr>)"
| "ocr_take_action w a Ocr_help = Inl Help_exit"
| "ocr_take_action w a (Ocr_unrecognized s) = Inr a"

fun ocr_scan :: "world \<Rightarrow> ocr_args \<Rightarrow> ocr_item list \<Rightarrow> parser_exit + ocr_args" where
  "ocr_scan w a [] = Inr a"
| "ocr_scan w a (x # xs) =
     (case ocr_take_action w a x of
        Inl e \<Rightarrow> Inl e
      | Inr a' \<Rightarrow> ocr_scan w a' xs)"

fun ocr_extras :: "ocr_item list \<Rightarrow> string list" where
  "ocr_extras [] = []"
| "ocr_extras (Ocr_unrecognized s # xs) = s # ocr_extras xs"
| "ocr_extras (x # xs) = ocr_extras xs"

definition ocr_parse_args ::
  "world \<Rightarrow> ocr_module \<Rightarrow> ocr_item list \<Rightarrow> parser_exit + ocr_args" where
  "ocr_parse_args w m argv =
     (case ocr_scan w (ocr_defaults m) argv of
        Inl e \<Rightarrow> Inl e
      | Inr a \<Rightarrow>
          if ocr_extras argv = [] then Inr a
          else Inl (Usage_exit (Unrecognized_arguments (ocr_extras argv))))"

text \<open>
  The toggles are read from the module-level defaults, not from the namespace.
\<close>

definition ocr_command :: "ocr_module \<Rightarrow> ocr_args \<Rightarrow> string list" where
  "ocr_command m a =
     [ LLAMA_CLI_EXECUTABLE m,
       ''-m'', str_path (model a),
       ''--mmproj'', str_path (mmproj a),
       ''--image'', str_path (image a),
       ''-p'', PROMPT m,
       ''-ngl'', str_int (ngl a),
       ''--threads'', str_int (threads a),
       ''-c'', str_int (context_size a),
       ''-n'', str_int (n_predict a),
       ''--temp'', temp a,
       ''-ctk'', cache_type_k a,
       ''-ctv'', cache_type_v a ]
     @ (if DEFAULT_FLASH_ATTN m then [''-fa''] else [])
     @ (if DEFAULT_MLOCK m then [''--mlock''] else [])"

text \<open>
  With \<open>text=True\<close> the captured output is read in text mode: every carriage return
  followed by a line feed, and every other carriage return, that the child wrote arrives
  as one line feed.
\<close>

fun universal_newlines :: "string \<Rightarrow> string" where
  "universal_newlines [] = []"
| "universal_newlines [c] = (if c = CHR 0x0D then [CHR 0x0A] else [c])"
| "universal_newlines (c # d # ds) =
     (if c = CHR 0x0D \<and> d = CHR 0x0A then CHR 0x0A # universal_newlines ds
      else if c = CHR 0x0D then CHR 0x0A # universal_newlines (d # ds)
      else c # universal_newlines (d # ds))"

text \<open>
  Running the command with \<open>check=True\<close>, \<open>capture_output=True\<close> and \<open>text=True\<close>: a
  return code other than 0 is the exception CalledProcessError, handled in \<open>main\<close>;
  \<open>stdout\<close> and \<open>stderr\<close> are the captured texts.
\<close>

definition ocr_execute :: "world \<Rightarrow> ocr_module \<Rightarrow> string list \<Rightarrow> run" where
  "ocr_execute w m command =
     (case subprocess_run w command of
        Ended returncode out err \<Rightarrow>
          let stdout = universal_newlines out;
              stderr = universal_newlines err
          in if returncode = 0 then
               \<lparr> events = [Spawn command, Out (strip stdout)], ending = Returned \<rparr>
             else
               \<lparr> events =
                   [Spawn command,
                    Err (''Error: Command failed with exit code '' @ str_int returncode),
                    Err ''\<newline>--- stderr ---'',
                    Err (strip stderr),
                    Err ''\<newline>--- stdout ---'',
                    Err (strip stdout)],
                 ending = SysExit returncode \<rparr>
      | FileNotFoundError \<Rightarrow>
          \<lparr> events =
              [Spawn command,
               Err (''Error: '' @ quoted (LLAMA_CLI_EXECUTABLE m) @ '' command not found.''),
               Err ''Please ensure llama.cpp is built and its binaries are in your PATH.''],
            ending = SysExit 1 \<rparr>
      | Raised e \<Rightarrow>
          \<lparr> events = [Spawn command, Err (''An unexpected error occurred: '' @ e)],
            ending = SysExit 1 \<rparr>)"

definition ocr_run :: "world \<Rightarrow> ocr_module \<Rightarrow> ocr_args \<Rightarrow> run" where
  "ocr_run w m a =
     (if \<not> is_file w (str_path (model a)) then
        \<lparr> events = [Err (''Error: Model file not found at '' @ str_path (model a))],
          ending = SysExit 1 \<rparr>
      else if \<not> is_file w (str_path (mmproj a)) then
        \<lparr> events = [Err (''Error: MMPROJ file not found at '' @ str_path (mmproj a))],
          ending = SysExit 1 \<rparr>
      else if \<not> is_file w (str_path (image a)) then
        \<lparr> events = [Err (''Error: Image file not found at '' @ str_path (image a))],
          ending = SysExit 1 \<rparr>
      else ocr_execute w m (ocr_command m a))"

definition ocr_main :: "script \<Rightarrow> world \<Rightarrow> ocr_item list \<Rightarrow> run" where
  "ocr_main k w argv =
     (case ocr_module_init k w of
        None \<Rightarrow> \<lparr> events = [], ending = Uncaught ''ValueError'' \<rparr>
      | Some m \<Rightarrow>
          (case ocr_parse_args w m argv of
             Inl e \<Rightarrow> parser_left e
           | Inr a \<Rightarrow> ocr_run w m a))"

section \<open>Launch configurations\<close>

text \<open>
  The launch configuration of an invocation: the module-level values together with the
  parsed namespace. There is none when the module raises ValueError or argparse leaves.
\<close>

definition chat_launch_config ::
  "world \<Rightarrow> chat_item list \<Rightarrow> (chat_module \<times> chat_args) option" where
  "chat_launch_config w argv =
     (case chat_module_init w of
        None \<Rightarrow> None
      | Some m \<Rightarrow> (case chat_parse_args m argv of Inl e \<Rightarrow> None | Inr a \<Rightarrow> Some (m, a)))"

definition ocr_launch_config ::
  "script \<Rightarrow> world \<Rightarrow> ocr_item list \<Rightarrow> (ocr_module \<times> ocr_args) option" where
  "ocr_launch_config k w argv =
     (case ocr_module_init k w of
        None \<Rightarrow> None
      | Some m \<Rightarrow> (case ocr_parse_args w m argv of Inl e \<Rightarrow> None | Inr a \<Rightarrow> Some (m, a)))"

definition ocr_files_exist :: "world \<Rightarrow> ocr_args \<Rightarrow> bool" where
  "ocr_files_exist w a =
     (is_file w (str_path (model a)) \<and> is_file w (str_path (mmproj a)) \<and>
      is_file w (str_path (image a)))"

section \<open>Reading an argument vector\<close>

text \<open>
  The words after the executable, taken two by two: a flag and its value.
\<close>

fun option_pairs :: "string list \<Rightarrow> (string \<times> string) list" where
  "option_pairs (flag # v # rest) = (flag, v) # option_pairs rest"
| "option_pairs rest = []"

text \<open>
  The words of a command after its executable and its flag and value pairs: 8 pairs in
  chat.py, 11 in the OCR scripts.
\<close>

definition chat_toggles :: "string list \<Rightarrow> string list" where
  "chat_toggles command = drop 17 command"

definition ocr_toggles :: "string list \<Rightarrow> string list" where
  "ocr_toggles command = drop 23 command"

section \<open>Layering of the sources\<close>

text \<open>
  The layering as the specification words it: the built-in default, overridden by the
  environment variable when it is set, overridden by the command-line flag when it is
  given.
\<close>

definition layered :: "'a \<Rightarrow> 'a option \<Rightarrow> 'a option \<Rightarrow> 'a" where
  "layered builtin env cli =
     (case cli of
        Some v \<Rightarrow> v
      | None \<Rightarrow> (case env of Some v \<Rightarrow> v | None \<Rightarrow> builtin))"

text \<open>What the command line gives for one option: its last occurrence, if any.\<close>

fun given :: "('i \<Rightarrow> 'v option) \<Rightarrow> 'i list \<Rightarrow> 'v option" where
  "given f [] = None"
| "given f (x # xs) = (case given f xs of Some v \<Rightarrow> Some v | None \<Rightarrow> f x)"

definition chat_cli_model :: "chat_item \<Rightarrow> string option" where
  "chat_cli_model x = (case x of Chat_model s \<Rightarrow> Some s | _ \<Rightarrow> None)"

definition chat_cli_port :: "chat_item \<Rightarrow> string option" where
  "chat_cli_port x = (case x of Chat_port s \<Rightarrow> Some s | _ \<Rightarrow> None)"

definition chat_cli_n_gpu_layers :: "chat_item \<Rightarrow> string option" where
  "chat_cli_n_gpu_layers x = (case x of Chat_n_gpu_layers s \<Rightarrow> Some s | _ \<Rightarrow> None)"

definition chat_cli_context_size :: "chat_item \<Rightarrow> string option" where
  "chat_cli_context_size x = (case x of Chat_context_size s \<Rightarrow> Some s | _ \<Rightarrow> None)"

definition chat_cli_batch_size :: "chat_item \<Rightarrow> string option" where
  "chat_cli_batch_size x = (case x of Chat_batch_size s \<Rightarrow> Some s | _ \<Rightarrow> None)"

definition chat_cli_ubatch_size :: "chat_item \<Rightarrow> string option" where
  "chat_cli_ubatch_size x = (case x of Chat_ubatch_size s \<Rightarrow> Some s | _ \<Rightarrow> None)"

definition chat_cli_cache_type_k :: "chat_item \<Rightarrow> string option" where
  "chat_cli_cache_type_k x = (case x of Chat_cache_type_k s \<Rightarrow> Some s | _ \<Rightarrow> None)"

definition chat_cli_cache_type_v :: "chat_item \<Rightarrow> string option" where
  "chat_cli_cache_type_v x = (case x of Chat_cache_type_v s \<Rightarrow> Some s | _ \<Rightarrow> None)"

definition chat_cli_flash_attn :: "chat_item \<Rightarrow> bool option" where
  "chat_cli_flash_attn x =
     (case x of Chat_flash_attn \<Rightarrow> Some True | Chat_no_flash_attn \<Rightarrow> Some False | _ \<Rightarrow> None)"

definition chat_cli_mlock :: "chat_item \<Rightarrow> bool option" where
  "chat_cli_mlock x =
     (case x of Chat_mlock \<Rightarrow> Some True | Chat_no_mlock \<Rightarrow> Some False | _ \<Rightarrow> None)"

definition ocr_cli_ngl :: "ocr_item \<Rightarrow> string option" where
  "ocr_cli_ngl x = (case x of Ocr_ngl s \<Rightarrow> Some s | _ \<Rightarrow> None)"

definition ocr_cli_threads :: "ocr_item \<Rightarrow> string option" where
  "ocr_cli_threads x = (case x of Ocr_threads s \<Rightarrow> Some s | _ \<Rightarrow> None)"

definition ocr_cli_ctx :: "ocr_item \<Rightarrow> string option" where
  "ocr_cli_ctx x = (case x of Ocr_ctx s \<Rightarrow> Some s | _ \<Rightarrow> None)"

definition ocr_cli_n_predict :: "ocr_item \<Rightarrow> string option" where
  "ocr_cli_n_predict x = (case x of Ocr_n_predict s \<Rightarrow> Some s | _ \<Rightarrow> None)"

definition ocr_cli_temp :: "ocr_item \<Rightarrow> string option" where
  "ocr_cli_temp x = (case x of Ocr_temp s \<Rightarrow> Some s | _ \<Rightarrow> None)"

definition ocr_cli_cache_type_k :: "ocr_item \<Rightarrow> string option" where
  "ocr_cli_cache_type_k x = (case x of Ocr_cache_type_k s \<Rightarrow> Some s | _ \<Rightarrow> None)"

definition ocr_cli_cache_type_v :: "ocr_item \<Rightarrow> string option" where
  "ocr_cli_cache_type_v x = (case x of Ocr_cache_type_v s \<Rightarrow> Some s | _ \<Rightarrow> None)"

definition ocr_cli_model :: "ocr_item \<Rightarrow> string option" where
  "ocr_cli_model x = (case x of Ocr_model s \<Rightarrow> Some s | _ \<Rightarrow> None)"

definition ocr_cli_mmproj :: "ocr_item \<Rightarrow> string option" where
  "ocr_cli_mmproj x = (case x of Ocr_mmproj s \<Rightarrow> Some s | _ \<Rightarrow> None)"

definition ocr_cli_image :: "ocr_item \<Rightarrow> string option" where
  "ocr_cli_image x = (case x of Ocr_image s \<Rightarrow> Some s | _ \<Rightarrow> None)"

section \<open>A sample installation\<close>

text \<open>
  The scripts live in \<open>/srv/app\<close>, the three data files are in place, and the environment
  and the behaviour of the child are given.
\<close>

definition sample_world :: "(string \<times> string) list \<Rightarrow> child \<Rightarrow> world" where
  "sample_world env c =
     \<lparr> environ = map_of env,
       script_dir = ''/srv/app'',
       is_file = (\<lambda>p. p \<in> set [''/srv/app/data/gemma-3-4b-it-Q5_K_M.gguf'',
                                ''/srv/app/data/mmproj-BF16.gguf'',
                                ''/srv/app/data/temp.png'']),
       float_repr = (\<lambda>s. if s = ''0.3'' then Some ''0.3''
                         else if s = ''1'' then Some ''1.0'' else None),
       subprocess_run = (\<lambda>command. c) \<rparr>"

text \<open>The module-level values of the scripts there, under an empty environment.\<close>

definition sample_chat_module :: chat_module where
  "sample_chat_module =
     \<lparr> chat_module.DATA_DIR = ''/srv/app/data'',
       DEFAULT_MODEL_PATH = ''/srv/app/data/gemma-3-4b-it-Q5_K_M.gguf'',
       DEFAULT_PORT = 4000,
       DEFAULT_NGL = 48,
       DEFAULT_CTX = 8192,
       DEFAULT_BATCH_SIZE = 512,
       DEFAULT_UBATCH_SIZE = 128,
       DEFAULT_CACHE_TYPE_K = ''q5_1'',
       DEFAULT_CACHE_TYPE_V = ''q5_1'',
       DEFAULT_FLASH_ATTN = True,
       DEFAULT_MLOCK = True,
       LLAMA_SERVER_EXECUTABLE = ''llama-server'' \<rparr>"

definition sample_ocr_module :: "script \<Rightarrow> ocr_module" where
  "sample_ocr_module k =
     \<lparr> ocr_module.DATA_DIR = ''/srv/app/data'',
       DEFAULT_MODEL_PATH = ''/srv/app/data/gemma-3-4b-it-Q5_K_M.gguf'',
       DEFAULT_MMPROJ_PATH = ''/srv/app/data/mmproj-BF16.gguf'',
       DEFAULT_IMAGE_PATH = ''/srv/app/data/temp.png'',
       DEFAULT_NGL = 34,
       DEFAULT_THREADS = 3,
       DEFAULT_CTX = 16384,
       DEFAULT_N_PREDICT = (case k of Ocr_meta \<Rightarrow> 1024 | Ocr_tx \<Rightarrow> 2048),
       DEFAULT_TEMP = ''0.3'',
       DEFAULT_CACHE_TYPE_K = ''q4_1'',
       DEFAULT_CACHE_TYPE_V = ''q4_1'',
       DEFAULT_FLASH_ATTN = True,
       DEFAULT_MLOCK = True,
       LLAMA_CLI_EXECUTABLE = ''llama-gemma3-cli'',
       PROMPT = prompt_text k \<rparr>"


section \<open>Properties\<close>

subsection \<open>Auxiliary facts\<close>

lemma chat_main_run:
  "chat_launch_config w argv = Some (m, a) \<Longrightarrow> chat_main w argv = chat_run w m a"
  by (auto simp: chat_launch_config_def chat_main_def split: option.splits sum.splits)

lemma ocr_main_run:
  "ocr_launch_config k w argv = Some (m, a) \<Longrightarrow> ocr_main k w argv = ocr_run w m a"
  by (auto simp: ocr_launch_config_def ocr_main_def split: option.splits sum.splits)

lemma ocr_run_execute:
  "ocr_files_exist w a \<Longrightarrow> ocr_run w m a = ocr_execute w m (ocr_command m a)"
  by (simp add: ocr_files_exist_def ocr_run_def)

lemma strip_decomp:
  "\<exists>pre post. s = pre @ strip s @ post \<and> list_all isspace pre \<and> list_all isspace post"
proof -
  let ?t = "dropWhile isspace s"
  have a: "s = takeWhile isspace s @ ?t" by simp
  have b: "?t = rev (dropWhile isspace (rev ?t)) @ rev (takeWhile isspace (rev ?t))"
    by (metis rev_append rev_rev_ident takeWhile_dropWhile_id)
  have c: "list_all isspace (takeWhile isspace s)"
    by (simp add: list_all_iff) (meson set_takeWhileD)
  have d: "list_all isspace (rev (takeWhile isspace (rev ?t)))"
    by (simp add: list_all_iff) (meson set_takeWhileD)
  have "s = takeWhile isspace s @ strip s @ rev (takeWhile isspace (rev ?t))"
    unfolding strip_def rstrip_def lstrip_def using a b by metis
  with c d show ?thesis by blast
qed

lemma rstrip_last: "rstrip t \<noteq> [] \<Longrightarrow> \<not> isspace (last (rstrip t))"
  unfolding rstrip_def by (simp add: last_rev hd_dropWhile)

lemma rstrip_hd: "rstrip t \<noteq> [] \<Longrightarrow> hd (rstrip t) = hd t"
proof -
  assume ne: "rstrip t \<noteq> []"
  have "t = rstrip t @ rev (takeWhile isspace (rev t))"
    unfolding rstrip_def by (metis rev_append rev_rev_ident takeWhile_dropWhile_id)
  with ne show ?thesis by (metis hd_append2)
qed

lemma strip_edges:
  "strip s \<noteq> [] \<Longrightarrow> \<not> isspace (hd (strip s)) \<and> \<not> isspace (last (strip s))"
proof -
  assume ne: "strip s \<noteq> []"
  then have l: "lstrip s \<noteq> []" by (auto simp: strip_def rstrip_def)
  have "hd (strip s) = hd (lstrip s)" using ne by (simp add: strip_def rstrip_hd)
  moreover have "\<not> isspace (hd (lstrip s))" using l by (simp add: lstrip_def hd_dropWhile)
  moreover have "\<not> isspace (last (strip s))" using ne by (simp add: strip_def rstrip_last)
  ultimately show ?thesis by simp
qed

lemma py_int_samples:
  "py_int ''4000'' = Some 4000" "py_int ''48'' = Some 48" "py_int ''8192'' = Some 8192"
  "py_int ''512'' = Some 512" "py_int ''128'' = Some 128" "py_int ''34'' = Some 34"
  "py_int ''3'' = Some 3" "py_int ''16384'' = Some 16384" "py_int ''1024'' = Some 1024"
  "py_int ''2048'' = Some 2048"
  by (simp_all add: py_int_def int_strip_def int_space_def py_nat_def digit_val_def)

lemma truthy_1: "truthy ''1''"
  by (simp add: truthy_def lower_def lower_char_def)

lemma sample_world_simps:
  "environ (sample_world env c) = map_of env"
  "script_dir (sample_world env c) = ''/srv/app''"
  "is_file (sample_world env c) p =
     (p \<in> set [''/srv/app/data/gemma-3-4b-it-Q5_K_M.gguf'',
               ''/srv/app/data/mmproj-BF16.gguf'',
               ''/srv/app/data/temp.png''])"
  "float_repr (sample_world env c) s =
     (if s = ''0.3'' then Some ''0.3'' else if s = ''1'' then Some ''1.0'' else None)"
  by (simp_all add: sample_world_def)

lemma sample_run: "subprocess_run (sample_world env c) command = c"
  by (simp add: sample_world_def)

lemma sample_getenv: "getenv (sample_world [] c) name d = d"
  by (simp add: getenv_def sample_world_simps)

lemma chat_config_no_arguments:
  "chat_module_init w = Some m \<Longrightarrow> chat_launch_config w [] = Some (m, chat_defaults m)"
  by (simp add: chat_launch_config_def chat_parse_args_def)

lemma ocr_config_no_arguments:
  "ocr_module_init k w = Some m \<Longrightarrow> ocr_launch_config k w [] = Some (m, ocr_defaults m)"
  by (simp add: ocr_launch_config_def ocr_parse_args_def)

lemma sample_data_files:
  "str_path (truediv (PurePath ''/srv/app'') ''data'') = ''/srv/app/data''"
  "str_path (truediv (PurePath ''/srv/app/data'') ''gemma-3-4b-it-Q5_K_M.gguf'') =
     ''/srv/app/data/gemma-3-4b-it-Q5_K_M.gguf''"
  "str_path (truediv (PurePath ''/srv/app/data'') ''mmproj-BF16.gguf'') =
     ''/srv/app/data/mmproj-BF16.gguf''"
  "str_path (truediv (PurePath ''/srv/app/data'') ''temp.png'') = ''/srv/app/data/temp.png''"
  "str_path (PurePath ''/srv/app/data/gemma-3-4b-it-Q5_K_M.gguf'') =
     ''/srv/app/data/gemma-3-4b-it-Q5_K_M.gguf''"
  "str_path (PurePath ''/srv/app/data/mmproj-BF16.gguf'') = ''/srv/app/data/mmproj-BF16.gguf''"
  "str_path (PurePath ''/srv/app/data/temp.png'') = ''/srv/app/data/temp.png''"
  by (simp_all add: truediv_def PurePath_def splitroot_def str_path_def posix_join_def)

lemma sample_chat_init: "chat_module_init (sample_world [] c) = Some sample_chat_module"
  by (simp add: chat_module_init_def sample_getenv py_int_samples truthy_1 chat_data_dir_def
      chat_model_path_def sample_world_simps sample_data_files sample_chat_module_def)

lemma sample_chat_config:
  "chat_launch_config (sample_world [] c) [] =
     Some (sample_chat_module, chat_defaults sample_chat_module)"
  by (simp add: chat_config_no_arguments sample_chat_init)

lemma sample_chat_model_file:
  "str_path (chat_args.model (chat_defaults sample_chat_module)) =
     ''/srv/app/data/gemma-3-4b-it-Q5_K_M.gguf''"
  by (simp add: chat_defaults_def sample_chat_module_def sample_data_files)

lemma sample_ocr_init: "ocr_module_init k (sample_world [] c) = Some (sample_ocr_module k)"
  by (cases k)
    (simp_all add: ocr_module_init_def sample_getenv py_int_samples truthy_1 ocr_data_dir_def
      ocr_data_file_def sample_world_simps sample_data_files sample_ocr_module_def)

lemma sample_ocr_config:
  "ocr_launch_config k (sample_world [] c) [] =
     Some (sample_ocr_module k, ocr_defaults (sample_ocr_module k))"
  by (simp add: ocr_config_no_arguments sample_ocr_init)

lemma sample_ocr_paths:
  "str_path (model (ocr_defaults (sample_ocr_module k))) =
     ''/srv/app/data/gemma-3-4b-it-Q5_K_M.gguf''"
  "str_path (mmproj (ocr_defaults (sample_ocr_module k))) = ''/srv/app/data/mmproj-BF16.gguf''"
  "str_path (image (ocr_defaults (sample_ocr_module k))) = ''/srv/app/data/temp.png''"
  by (simp_all add: ocr_defaults_def sample_ocr_module_def sample_data_files)

lemma sample_ocr_files:
  "ocr_files_exist (sample_world [] c) (ocr_defaults (sample_ocr_module k))"
  by (simp add: ocr_files_exist_def sample_ocr_paths sample_world_simps)

lemma strip_samples:
  \<open>strip ''{"ok":true}\<newline>'' = ''{"ok":true}''\<close>
  \<open>strip ''partial '' = ''partial''\<close>
  \<open>strip ''  failed to load\<newline>'' = ''failed to load''\<close>
  \<open>strip ''[]'' = ''[]''\<close>
  by (simp_all add: strip_def lstrip_def rstrip_def isspace_def)

lemma universal_newlines_id: "CHR 0x0D \<notin> set s \<Longrightarrow> universal_newlines s = s"
  by (induction s rule: universal_newlines.induct) auto

lemma newline_samples:
  \<open>universal_newlines ''{"ok":true}\<newline>'' = ''{"ok":true}\<newline>''\<close>
  \<open>universal_newlines ''partial '' = ''partial ''\<close>
  \<open>universal_newlines ''  failed to load\<newline>'' = ''  failed to load\<newline>''\<close>
  \<open>universal_newlines ''[]'' = ''[]''\<close>
  by (simp_all add: universal_newlines_id)

subsection \<open>Streaming launchers\<close>

text \<open>
  C7. In chat.py, for a launch configuration whose model file exists, and in
  watch\_gpu.py, when \<open>subprocess.run\<close> returns with the child's return code \<open>n\<close>, the
  launcher ends with \<open>sys.exit(n)\<close>, so its exit status is \<open>n mod 256\<close>. A child that ran
  to completion has a return code from 0 to 255, and then the exit status of the launcher
  is that code, whatever it is.
\<close>

theorem streaming_relays_exit_status:
  "(chat_launch_config w argv = Some (m, a) \<and> is_file w (str_path (chat_args.model a)) \<and>
    subprocess_run w (chat_command m a) = Ended n out err
      \<longrightarrow> ending (chat_main w argv) = SysExit n \<and>
          exit_status (ending (chat_main w argv)) = n mod 256 \<and>
          (0 \<le> n \<and> n < 256 \<longrightarrow> exit_status (ending (chat_main w argv)) = n))
   \<and> (subprocess_run w [''watch'', ''-n'', ''1'', ''nvidia-smi''] = Ended n out err
      \<longrightarrow> ending (watch_gpu_main w) = SysExit n \<and>
          exit_status (ending (watch_gpu_main w)) = n mod 256 \<and>
          (0 \<le> n \<and> n < 256 \<longrightarrow> exit_status (ending (watch_gpu_main w)) = n))"
  by (auto simp: chat_main_run chat_run_def watch_gpu_main_def Let_def)

theorem streaming_relays_exit_status_witness:
  "exit_status (ending (chat_main (sample_world [] (Ended 3 [] [])) [])) = 3 \<and>
   exit_status (ending (watch_gpu_main (sample_world [] (Ended 3 [] [])))) = 3"
proof -
  let ?w = "sample_world [] (Ended 3 [] [])"
  have f: "is_file ?w (str_path (chat_args.model (chat_defaults sample_chat_module)))"
    by (simp add: sample_chat_model_file sample_world_simps)
  show ?thesis
    using streaming_relays_exit_status [of ?w "[]" sample_chat_module
        "chat_defaults sample_chat_module" 3 "[]" "[]"]
      sample_chat_config [of "Ended 3 [] []"] f
    by (simp add: sample_run)
qed

subsection \<open>Capture launchers\<close>

text \<open>
  C4, as it stands, fails where the child writes a carriage return: a child that ends
  with return code 0 having written \<open>a\<close>, carriage return, line feed, \<open>b\<close>, carriage return,
  line feed makes ocr\_meta.py print \<open>a\<close>, line feed, \<open>b\<close>, which is not what was written
  with the whitespace at its ends removed (that keeps the carriage return and the line
  feed between \<open>a\<close> and \<open>b\<close>).
\<close>

theorem capture_newlines_counterexample:
  "stdout_of (ocr_main Ocr_meta
     (sample_world []
        (Ended 0 [CHR ''a'', CHR 0x0D, CHR 0x0A, CHR ''b'', CHR 0x0D, CHR 0x0A] [])) []) =
     [[CHR ''a'', CHR 0x0A, CHR ''b'']] \<and>
   strip [CHR ''a'', CHR 0x0D, CHR 0x0A, CHR ''b'', CHR 0x0D, CHR 0x0A] =
     [CHR ''a'', CHR 0x0D, CHR 0x0A, CHR ''b''] \<and>
   stdout_of (ocr_main Ocr_meta
     (sample_world []
        (Ended 0 [CHR ''a'', CHR 0x0D, CHR 0x0A, CHR ''b'', CHR 0x0D, CHR 0x0A] [])) []) \<noteq>
     [strip [CHR ''a'', CHR 0x0D, CHR 0x0A, CHR ''b'', CHR 0x0D, CHR 0x0A]]"
proof -
  let ?S = "[CHR ''a'', CHR 0x0D, CHR 0x0A, CHR ''b'', CHR 0x0D, CHR 0x0A]"
  let ?w = "sample_world [] (Ended 0 ?S [])"
  let ?m = "sample_ocr_module Ocr_meta"
  have r: "ocr_main Ocr_meta ?w [] = ocr_execute ?w ?m (ocr_command ?m (ocr_defaults ?m))"
    using sample_ocr_config [of Ocr_meta "Ended 0 ?S []"] sample_ocr_files [of "Ended 0 ?S []" Ocr_meta]
    by (simp add: ocr_main_run ocr_run_execute)
  have t: "strip ?S = [CHR ''a'', CHR 0x0D, CHR 0x0A, CHR ''b'']"
    "strip [CHR ''a'', CHR 0x0A, CHR ''b'', CHR 0x0A] = [CHR ''a'', CHR 0x0A, CHR ''b'']"
    by (simp_all add: strip_def lstrip_def rstrip_def isspace_def)
  have o: "stdout_of (ocr_main Ocr_meta ?w []) = [[CHR ''a'', CHR 0x0A, CHR ''b'']]"
    by (simp add: r ocr_execute_def Let_def sample_run stdout_of_def t)
  from o t show ?thesis
    by simp
qed

text \<open>
  C4, amended. In ocr\_meta.py and ocr\_tx.py, for a launch configuration whose three
  files exist, when the child ends with return code 0 having written \<open>S\<close> to its standard
  output, the launcher prints exactly the captured text with the whitespace at its two
  ends removed, and nothing else, and ends with status 0. The captured text is \<open>S\<close> read
  in text mode: each carriage return followed by a line feed, and each other carriage
  return, is one line feed. When \<open>S\<close> has no carriage return it is \<open>S\<close> itself, and the
  launcher prints exactly \<open>S.strip()\<close>.
\<close>

theorem capture_prints_trimmed_stdout:
  "ocr_launch_config k w argv = Some (m, a) \<and> ocr_files_exist w a \<and>
   subprocess_run w (ocr_command m a) = Ended 0 S err
   \<longrightarrow> stdout_of (ocr_main k w argv) = [strip (universal_newlines S)] \<and>
       ending (ocr_main k w argv) = Returned \<and>
       exit_status (ending (ocr_main k w argv)) = 0 \<and>
       (\<exists>pre post. universal_newlines S = pre @ strip (universal_newlines S) @ post \<and>
          list_all isspace pre \<and> list_all isspace post) \<and>
       (strip (universal_newlines S) = [] \<or>
          (\<not> isspace (hd (strip (universal_newlines S))) \<and>
           \<not> isspace (last (strip (universal_newlines S))))) \<and>
       (CHR 0x0D \<notin> set S \<longrightarrow> stdout_of (ocr_main k w argv) = [strip S])"
proof (intro impI, elim conjE)
  assume c: "ocr_launch_config k w argv = Some (m, a)" and f: "ocr_files_exist w a"
    and r: "subprocess_run w (ocr_command m a) = Ended 0 S err"
  let ?T = "universal_newlines S"
  have run: "ocr_main k w argv =
      \<lparr> events = [Spawn (ocr_command m a), Out (strip ?T)], ending = Returned \<rparr>"
    using c f r by (simp add: ocr_main_run ocr_run_execute ocr_execute_def Let_def)
  have o: "stdout_of (ocr_main k w argv) = [strip ?T]"
    by (simp add: run stdout_of_def)
  have e: "ending (ocr_main k w argv) = Returned" "exit_status (ending (ocr_main k w argv)) = 0"
    by (simp_all add: run)
  have d: "\<exists>pre post. ?T = pre @ strip ?T @ post \<and> list_all isspace pre \<and> list_all isspace post"
    by (rule strip_decomp)
  have g: "strip ?T = [] \<or> (\<not> isspace (hd (strip ?T)) \<and> \<not> isspace (last (strip ?T)))"
    using strip_edges [of ?T] by blast
  have n: "CHR 0x0D \<notin> set S \<longrightarrow> stdout_of (ocr_main k w argv) = [strip S]"
    using o by (simp add: universal_newlines_id)
  from o e d g n
  show "stdout_of (ocr_main k w argv) = [strip ?T] \<and>
       ending (ocr_main k w argv) = Returned \<and>
       exit_status (ending (ocr_main k w argv)) = 0 \<and>
       (\<exists>pre post. ?T = pre @ strip ?T @ post \<and> list_all isspace pre \<and> list_all isspace post) \<and>
       (strip ?T = [] \<or> (\<not> isspace (hd (strip ?T)) \<and> \<not> isspace (last (strip ?T)))) \<and>
       (CHR 0x0D \<notin> set S \<longrightarrow> stdout_of (ocr_main k w argv) = [strip S])"
    by (intro conjI)
qed

theorem capture_prints_trimmed_stdout_witness:
  \<open>stdout_of (ocr_main Ocr_meta (sample_world [] (Ended 0 ''{"ok":true}\<newline>'' ''loaded'')) [])
     = [''{"ok":true}''] \<and>
   exit_status (ending (ocr_main Ocr_meta
     (sample_world [] (Ended 0 ''{"ok":true}\<newline>'' ''loaded'')) [])) = 0\<close>
proof -
  let ?c = \<open>Ended 0 ''{"ok":true}\<newline>'' ''loaded''\<close>
  let ?w = "sample_world [] ?c"
  let ?m = "sample_ocr_module Ocr_meta"
  show ?thesis
    using capture_prints_trimmed_stdout [of Ocr_meta ?w "[]" ?m "ocr_defaults ?m"
        \<open>''{"ok":true}\<newline>''\<close> "''loaded''"]
      sample_ocr_config [of Ocr_meta ?c] sample_ocr_files [of ?c Ocr_meta]
    by (simp add: sample_run strip_samples newline_samples)
qed

text \<open>
  C5. In ocr\_meta.py and ocr\_tx.py, for a launch configuration whose three files exist,
  when the child ends with a return code \<open>n\<close> other than 0, the launcher writes to its
  standard error a line with the code, then the captured standard error and the captured
  standard output of the child (each without the whitespace at its two ends, under a
  heading), writes nothing to its standard output, and ends with \<open>sys.exit(n)\<close>: its exit
  status is \<open>n mod 256\<close>, which for a child that exited with a status \<open>n\<close> from 1 to 255 is
  \<open>n\<close>. The captured texts are what the child wrote, read in text mode.
\<close>

theorem capture_relays_failure:
  "ocr_launch_config k w argv = Some (m, a) \<and> ocr_files_exist w a \<and>
   subprocess_run w (ocr_command m a) = Ended n out err \<and> n \<noteq> 0
   \<longrightarrow> stderr_of (ocr_main k w argv) =
         [''Error: Command failed with exit code '' @ str_int n,
          ''\<newline>--- stderr ---'', strip (universal_newlines err),
          ''\<newline>--- stdout ---'', strip (universal_newlines out)] \<and>
       stdout_of (ocr_main k w argv) = [] \<and>
       ending (ocr_main k w argv) = SysExit n \<and>
       exit_status (ending (ocr_main k w argv)) = n mod 256 \<and>
       (0 < n \<and> n < 256 \<longrightarrow> exit_status (ending (ocr_main k w argv)) = n) \<and>
       (\<exists>pre post. universal_newlines err = pre @ strip (universal_newlines err) @ post \<and>
          list_all isspace pre \<and> list_all isspace post) \<and>
       (\<exists>pre post. universal_newlines out = pre @ strip (universal_newlines out) @ post \<and>
          list_all isspace pre \<and> list_all isspace post)"
  using strip_decomp [of "universal_newlines err"] strip_decomp [of "universal_newlines out"]
  by (simp add: ocr_main_run ocr_run_execute ocr_execute_def Let_def stderr_of_def stdout_of_def)

theorem capture_relays_failure_witness:
  "stderr_of (ocr_main Ocr_meta (sample_world [] (Ended 2 ''partial '' ''  failed to load\<newline>'')) [])
     = [''Error: Command failed with exit code 2'',
        ''\<newline>--- stderr ---'', ''failed to load'',
        ''\<newline>--- stdout ---'', ''partial''] \<and>
   exit_status (ending (ocr_main Ocr_meta
     (sample_world [] (Ended 2 ''partial '' ''  failed to load\<newline>'')) [])) = 2"
proof -
  let ?c = "Ended 2 ''partial '' ''  failed to load\<newline>''"
  let ?w = "sample_world [] ?c"
  let ?m = "sample_ocr_module Ocr_meta"
  have t: "str_int 2 = ''2''"
    by code_simp
  show ?thesis
    using capture_relays_failure [of Ocr_meta ?w "[]" ?m "ocr_defaults ?m" 2
        "''partial ''" "''  failed to load\<newline>''"]
      sample_ocr_config [of Ocr_meta ?c] sample_ocr_files [of ?c Ocr_meta]
    by (simp add: sample_run strip_samples newline_samples t)
qed

lemma ocr_module_init_run_update:
  "ocr_module_init k (w\<lparr>subprocess_run := f\<rparr>) = ocr_module_init k w"
  by (simp add: ocr_module_init_def getenv_def ocr_data_file_def ocr_data_dir_def)

lemma ocr_take_action_run_update:
  "ocr_take_action (w\<lparr>subprocess_run := f\<rparr>) a x = ocr_take_action w a x"
  by (cases x) (simp_all add: float_value_def)

lemma ocr_scan_run_update:
  "ocr_scan (w\<lparr>subprocess_run := f\<rparr>) a argv = ocr_scan w a argv"
  by (induction argv arbitrary: a) (simp_all add: ocr_take_action_run_update split: sum.splits)

lemma ocr_parse_args_run_update:
  "ocr_parse_args (w\<lparr>subprocess_run := f\<rparr>) m argv = ocr_parse_args w m argv"
  by (simp add: ocr_parse_args_def ocr_scan_run_update)

lemma ocr_launch_config_run_update:
  "ocr_launch_config k (w\<lparr>subprocess_run := f\<rparr>) argv = ocr_launch_config k w argv"
  by (simp add: ocr_launch_config_def ocr_module_init_run_update ocr_parse_args_run_update
      split: option.splits)

lemma ocr_files_exist_run_update:
  "ocr_files_exist (w\<lparr>subprocess_run := f\<rparr>) a = ocr_files_exist w a"
  by (simp add: ocr_files_exist_def)

text \<open>
  C10. In ocr\_meta.py and ocr\_tx.py, for a launch configuration whose three files
  exist, when the child ends with return code 0 the launcher writes nothing to its
  standard error; all it does is run the command and print the trimmed captured standard
  output. What the child wrote to its standard error has no effect: the same invocation
  with any other captured standard error behaves the same.
\<close>

theorem capture_discards_stderr:
  "ocr_launch_config k w argv = Some (m, a) \<and> ocr_files_exist w a \<and>
   subprocess_run w (ocr_command m a) = Ended 0 out err
   \<longrightarrow> stderr_of (ocr_main k w argv) = [] \<and>
       events (ocr_main k w argv) =
         [Spawn (ocr_command m a), Out (strip (universal_newlines out))] \<and>
       ocr_main k (w\<lparr>subprocess_run := (subprocess_run w)(ocr_command m a := Ended 0 out err')\<rparr>)
         argv = ocr_main k w argv"
proof (intro impI, elim conjE)
  assume c: "ocr_launch_config k w argv = Some (m, a)" and f: "ocr_files_exist w a"
    and r: "subprocess_run w (ocr_command m a) = Ended 0 out err"
  let ?w = "w\<lparr>subprocess_run := (subprocess_run w)(ocr_command m a := Ended 0 out err')\<rparr>"
  have run: "ocr_main k w argv =
      \<lparr> events = [Spawn (ocr_command m a), Out (strip (universal_newlines out))],
        ending = Returned \<rparr>"
    using c f r by (simp add: ocr_main_run ocr_run_execute ocr_execute_def Let_def)
  have c': "ocr_launch_config k ?w argv = Some (m, a)"
    using c by (simp add: ocr_launch_config_run_update)
  have f': "ocr_files_exist ?w a"
    using f by (simp add: ocr_files_exist_run_update)
  have run': "ocr_main k ?w argv =
      \<lparr> events = [Spawn (ocr_command m a), Out (strip (universal_newlines out))],
        ending = Returned \<rparr>"
    using c' f' by (simp add: ocr_main_run ocr_run_execute ocr_execute_def Let_def)
  show "stderr_of (ocr_main k w argv) = [] \<and>
       events (ocr_main k w argv) =
         [Spawn (ocr_command m a), Out (strip (universal_newlines out))] \<and>
       ocr_main k ?w argv = ocr_main k w argv"
    by (simp add: run run' stderr_of_def)
qed

theorem capture_discards_stderr_witness:
  "stderr_of (ocr_main Ocr_tx (sample_world [] (Ended 0 ''[]'' ''warning: slow'')) []) = [] \<and>
   ocr_main Ocr_tx
     ((sample_world [] (Ended 0 ''[]'' ''warning: slow''))
        \<lparr>subprocess_run := (subprocess_run (sample_world [] (Ended 0 ''[]'' ''warning: slow'')))
           (ocr_command (sample_ocr_module Ocr_tx) (ocr_defaults (sample_ocr_module Ocr_tx))
            := Ended 0 ''[]'' [])\<rparr>) []
     = ocr_main Ocr_tx (sample_world [] (Ended 0 ''[]'' ''warning: slow'')) []"
proof -
  let ?c = "Ended 0 ''[]'' ''warning: slow''"
  let ?w = "sample_world [] ?c"
  let ?m = "sample_ocr_module Ocr_tx"
  have r: "subprocess_run ?w (ocr_command ?m (ocr_defaults ?m)) = ?c"
    by (rule sample_run)
  show ?thesis
    using capture_discards_stderr [of Ocr_tx ?w "[]" ?m "ocr_defaults ?m" "''[]''"
        "''warning: slow''" "[]"]
      sample_ocr_config [of Ocr_tx ?c] sample_ocr_files [of ?c Ocr_tx] r
    by simp
qed

subsection \<open>Errors before and at the spawn\<close>

text \<open>
  C6. In every launcher, when \<open>subprocess.run\<close> raises FileNotFoundError (the executable
  is not on the search path), the launcher writes to its standard error a line saying that
  the command was not found and a line of guidance, and ends with status 1. For chat.py
  and the OCR scripts this is for a launch configuration whose files exist.
\<close>

theorem missing_executable_reported:
  "(chat_launch_config w argv = Some (m, a) \<and> is_file w (str_path (chat_args.model a)) \<and>
    subprocess_run w (chat_command m a) = FileNotFoundError
    \<longrightarrow> stderr_of (chat_main w argv) =
          [''Error: '' @ quoted (LLAMA_SERVER_EXECUTABLE m) @ '' command not found.'',
           ''Please ensure llama.cpp is built and its binaries are in your PATH.''] \<and>
        exit_status (ending (chat_main w argv)) = 1)
   \<and> (ocr_launch_config k w argv' = Some (m', a') \<and> ocr_files_exist w a' \<and>
    subprocess_run w (ocr_command m' a') = FileNotFoundError
    \<longrightarrow> stderr_of (ocr_main k w argv') =
          [''Error: '' @ quoted (LLAMA_CLI_EXECUTABLE m') @ '' command not found.'',
           ''Please ensure llama.cpp is built and its binaries are in your PATH.''] \<and>
        exit_status (ending (ocr_main k w argv')) = 1)
   \<and> (subprocess_run w [''watch'', ''-n'', ''1'', ''nvidia-smi''] = FileNotFoundError
    \<longrightarrow> stderr_of (watch_gpu_main w) =
          [''Error: '' @ quoted ''watch'' @ '' or '' @ quoted ''nvidia-smi'' @
             '' command not found.'',
           ''Please ensure '' @ quoted ''watch'' @
             '' and NVIDIA drivers/tools are installed and in your PATH.''] \<and>
        exit_status (ending (watch_gpu_main w)) = 1)"
proof (intro conjI impI; (elim conjE)?)
  assume "chat_launch_config w argv = Some (m, a)" "is_file w (str_path (chat_args.model a))"
    "subprocess_run w (chat_command m a) = FileNotFoundError"
  then have "chat_main w argv =
      \<lparr> events = [Out (''Starting server: '' @ join '' '' (chat_command m a)),
                  Spawn (chat_command m a),
                  Err (''Error: '' @ quoted (LLAMA_SERVER_EXECUTABLE m) @ '' command not found.''),
                  Err ''Please ensure llama.cpp is built and its binaries are in your PATH.''],
        ending = SysExit 1 \<rparr>"
    by (simp add: chat_main_run chat_run_def Let_def)
  then show "stderr_of (chat_main w argv) =
          [''Error: '' @ quoted (LLAMA_SERVER_EXECUTABLE m) @ '' command not found.'',
           ''Please ensure llama.cpp is built and its binaries are in your PATH.'']"
    and "exit_status (ending (chat_main w argv)) = 1"
    by (simp_all add: stderr_of_def)
next
  assume "ocr_launch_config k w argv' = Some (m', a')" "ocr_files_exist w a'"
    "subprocess_run w (ocr_command m' a') = FileNotFoundError"
  then have "ocr_main k w argv' =
      \<lparr> events = [Spawn (ocr_command m' a'),
                  Err (''Error: '' @ quoted (LLAMA_CLI_EXECUTABLE m') @ '' command not found.''),
                  Err ''Please ensure llama.cpp is built and its binaries are in your PATH.''],
        ending = SysExit 1 \<rparr>"
    by (simp add: ocr_main_run ocr_run_execute ocr_execute_def Let_def)
  then show "stderr_of (ocr_main k w argv') =
          [''Error: '' @ quoted (LLAMA_CLI_EXECUTABLE m') @ '' command not found.'',
           ''Please ensure llama.cpp is built and its binaries are in your PATH.'']"
    and "exit_status (ending (ocr_main k w argv')) = 1"
    by (simp_all add: stderr_of_def)
next
  assume "subprocess_run w [''watch'', ''-n'', ''1'', ''nvidia-smi''] = FileNotFoundError"
  then show "stderr_of (watch_gpu_main w) =
          [''Error: '' @ quoted ''watch'' @ '' or '' @ quoted ''nvidia-smi'' @
             '' command not found.'',
           ''Please ensure '' @ quoted ''watch'' @
             '' and NVIDIA drivers/tools are installed and in your PATH.'']"
    and "exit_status (ending (watch_gpu_main w)) = 1"
    by (simp_all add: watch_gpu_main_def stderr_of_def Let_def)
qed

theorem missing_executable_reported_witness:
  "stderr_of (chat_main (sample_world [] FileNotFoundError) []) =
     [''Error: '' @ quoted ''llama-server'' @ '' command not found.'',
      ''Please ensure llama.cpp is built and its binaries are in your PATH.''] \<and>
   exit_status (ending (chat_main (sample_world [] FileNotFoundError) [])) = 1 \<and>
   stderr_of (ocr_main Ocr_meta (sample_world [] FileNotFoundError) []) =
     [''Error: '' @ quoted ''llama-gemma3-cli'' @ '' command not found.'',
      ''Please ensure llama.cpp is built and its binaries are in your PATH.''] \<and>
   exit_status (ending (ocr_main Ocr_meta (sample_world [] FileNotFoundError) [])) = 1 \<and>
   exit_status (ending (watch_gpu_main (sample_world [] FileNotFoundError))) = 1"
proof -
  let ?w = "sample_world [] FileNotFoundError"
  let ?m = "sample_chat_module"
  let ?m' = "sample_ocr_module Ocr_meta"
  have f: "is_file ?w (str_path (chat_args.model (chat_defaults ?m)))"
    by (simp add: sample_chat_model_file sample_world_simps)
  have e: "LLAMA_SERVER_EXECUTABLE ?m = ''llama-server''"
    "LLAMA_CLI_EXECUTABLE ?m' = ''llama-gemma3-cli''"
    by (simp_all add: sample_chat_module_def sample_ocr_module_def)
  show ?thesis
    using missing_executable_reported [of ?w "[]" ?m "chat_defaults ?m" Ocr_meta "[]" ?m'
        "ocr_defaults ?m'"]
      sample_chat_config [of FileNotFoundError] f
      sample_ocr_config [of Ocr_meta FileNotFoundError] sample_ocr_files [of FileNotFoundError Ocr_meta]
    by (simp add: sample_run e)
qed

text \<open>
  C1. In chat.py, for a launch configuration whose model path is not a regular file, the
  launcher does one thing: it writes \<open>Error: Model file not found at\<close> and the path to its
  standard error; it ends with status 1 and never calls \<open>subprocess.run\<close>. In the OCR
  scripts the same holds for the first of the model, mmproj and image paths that is not a
  regular file, each with its own message naming the path.
\<close>

theorem missing_file_refused:
  "(chat_launch_config w argv = Some (m, a) \<and> \<not> is_file w (str_path (chat_args.model a))
    \<longrightarrow> events (chat_main w argv) =
          [Err (''Error: Model file not found at '' @ str_path (chat_args.model a))] \<and>
        exit_status (ending (chat_main w argv)) = 1 \<and>
        \<not> spawned (chat_main w argv))
   \<and> (ocr_launch_config k w argv' = Some (m', a') \<and> \<not> ocr_files_exist w a'
    \<longrightarrow> events (ocr_main k w argv') =
          [Err (if \<not> is_file w (str_path (model a'))
                then ''Error: Model file not found at '' @ str_path (model a')
                else if \<not> is_file w (str_path (mmproj a'))
                then ''Error: MMPROJ file not found at '' @ str_path (mmproj a')
                else ''Error: Image file not found at '' @ str_path (image a'))] \<and>
        exit_status (ending (ocr_main k w argv')) = 1 \<and>
        \<not> spawned (ocr_main k w argv'))"
  by (auto simp: chat_main_run chat_run_def ocr_main_run ocr_run_def ocr_files_exist_def
      spawned_def)

lemma sample_missing_paths:
  "str_path (PurePath ''/nowhere/model.gguf'') = ''/nowhere/model.gguf''"
  "str_path (PurePath ''./scan.png'') = ''scan.png''"
  by (simp_all add: PurePath_def splitroot_def str_path_def)

theorem missing_file_refused_witness:
  "events (chat_main (sample_world [] (Ended 0 [] [])) [Chat_model ''/nowhere/model.gguf'']) =
     [Err ''Error: Model file not found at /nowhere/model.gguf''] \<and>
   exit_status (ending
     (chat_main (sample_world [] (Ended 0 [] [])) [Chat_model ''/nowhere/model.gguf''])) = 1 \<and>
   \<not> spawned (chat_main (sample_world [] (Ended 0 [] [])) [Chat_model ''/nowhere/model.gguf'']) \<and>
   events (ocr_main Ocr_meta (sample_world [] (Ended 0 [] [])) [Ocr_image ''./scan.png'']) =
     [Err ''Error: Image file not found at scan.png''] \<and>
   exit_status (ending
     (ocr_main Ocr_meta (sample_world [] (Ended 0 [] [])) [Ocr_image ''./scan.png''])) = 1 \<and>
   \<not> spawned (ocr_main Ocr_meta (sample_world [] (Ended 0 [] [])) [Ocr_image ''./scan.png''])"
proof -
  let ?w = "sample_world [] (Ended 0 [] [])"
  let ?m = "sample_chat_module"
  let ?a = "(chat_defaults ?m)\<lparr>chat_args.model := PurePath ''/nowhere/model.gguf''\<rparr>"
  let ?m' = "sample_ocr_module Ocr_meta"
  let ?a' = "(ocr_defaults ?m')\<lparr>image := PurePath ''./scan.png''\<rparr>"
  have c: "chat_launch_config ?w [Chat_model ''/nowhere/model.gguf''] = Some (?m, ?a)"
    by (simp add: chat_launch_config_def chat_parse_args_def sample_chat_init)
  have c': "ocr_launch_config Ocr_meta ?w [Ocr_image ''./scan.png''] = Some (?m', ?a')"
    by (simp add: ocr_launch_config_def ocr_parse_args_def sample_ocr_init)
  have g: "str_path (model ?a') = ''/srv/app/data/gemma-3-4b-it-Q5_K_M.gguf''"
    "str_path (mmproj ?a') = ''/srv/app/data/mmproj-BF16.gguf''"
    using sample_ocr_paths [of Ocr_meta] by simp_all
  show ?thesis
    using missing_file_refused [of ?w "[Chat_model ''/nowhere/model.gguf'']" ?m ?a Ocr_meta
        "[Ocr_image ''./scan.png'']" ?m' ?a'] c c' g
    by (simp add: sample_missing_paths ocr_files_exist_def sample_world_simps)
qed

subsection \<open>Integers are read back from their text\<close>

lemma of_char_digit_char: "d < 10 \<Longrightarrow> (of_char (digit_char d) :: nat) = 48 + d"
  by (simp add: digit_char_def)

lemma digit_val_digit_char: "d < 10 \<Longrightarrow> digit_val (digit_char d) = Some d"
  by (simp add: digit_val_def of_char_digit_char)

lemma digit_char_not_special:
  assumes "d < 10"
  shows "digit_char d \<noteq> CHR ''_''" "digit_char d \<noteq> CHR ''-''" "digit_char d \<noteq> CHR ''+''"
    "\<not> int_space (digit_char d)"
proof -
  have n: "(of_char (digit_char d) :: nat) = 48 + d"
    using assms by (rule of_char_digit_char)
  show "digit_char d \<noteq> CHR ''_''"
  proof
    assume "digit_char d = CHR ''_''"
    then have "(of_char (digit_char d) :: nat) = of_char CHR ''_''" by simp
    with n assms show False by simp
  qed
  show "digit_char d \<noteq> CHR ''-''"
  proof
    assume "digit_char d = CHR ''-''"
    then have "(of_char (digit_char d) :: nat) = of_char CHR ''-''" by simp
    with n assms show False by simp
  qed
  show "digit_char d \<noteq> CHR ''+''"
  proof
    assume "digit_char d = CHR ''+''"
    then have "(of_char (digit_char d) :: nat) = of_char CHR ''+''" by simp
    with n assms show False by simp
  qed
  show "\<not> int_space (digit_char d)"
    using n assms by (simp add: int_space_def)
qed

lemma digits_from_snoc:
  "digits_from b acc xs = Some v \<Longrightarrow> d < 10 \<Longrightarrow>
   digits_from b acc (xs @ [digit_char d]) = Some (v * 10 + d)"
proof (induction xs arbitrary: b acc)
  case Nil
  then show ?case
    by (simp add: digit_val_digit_char digit_char_not_special split: if_splits)
next
  case (Cons c cs)
  then show ?case
    by (auto split: if_splits option.splits)
qed

lemma str_nat_unfold:
  "str_nat n = (if n < 10 then [digit_char n] else str_nat (n div 10) @ [digit_char (n mod 10)])"
  by (rule str_nat.simps)

declare str_nat.simps [simp del]

lemma digits_from_str_nat: "digits_from False 0 (str_nat n) = Some n"
proof (induction n rule: str_nat.induct)
  case (1 n)
  show ?case
  proof (cases "n < 10")
    case True
    then show ?thesis
      by (subst str_nat_unfold) (simp add: digit_val_digit_char digit_char_not_special)
  next
    case False
    then have "digits_from False 0 (str_nat (n div 10)) = Some (n div 10)"
      using "1.IH" by simp
    then have "digits_from False 0 (str_nat (n div 10) @ [digit_char (n mod 10)]) =
        Some (n div 10 * 10 + n mod 10)"
      by (rule digits_from_snoc) simp
    with False show ?thesis
      by (subst str_nat_unfold) simp
  qed
qed

lemma str_nat_hd: "\<exists>d cs. d < 10 \<and> str_nat n = digit_char d # cs"
proof (induction n rule: str_nat.induct)
  case (1 n)
  show ?case
  proof (cases "n < 10")
    case True
    then show ?thesis by (subst str_nat_unfold) auto
  next
    case False
    with "1.IH" obtain d cs where "d < 10" "str_nat (n div 10) = digit_char d # cs" by auto
    with False show ?thesis by (subst str_nat_unfold) auto
  qed
qed

lemma str_nat_last: "\<exists>d cs. d < 10 \<and> str_nat n = cs @ [digit_char d]"
proof (cases "n < 10")
  case True
  then have "str_nat n = [] @ [digit_char n]" by (subst str_nat_unfold) simp
  with True show ?thesis by blast
next
  case False
  then have "str_nat n = str_nat (n div 10) @ [digit_char (n mod 10)]"
    by (subst str_nat_unfold) simp
  moreover have "n mod 10 < 10" by simp
  ultimately show ?thesis by blast
qed

lemma py_nat_str_nat: "py_nat (str_nat n) = Some n"
proof -
  obtain d cs where d: "d < 10" and s: "str_nat n = digit_char d # cs"
    using str_nat_hd by blast
  have "digits_from False 0 (digit_char d # cs) = Some n"
    using digits_from_str_nat [of n] s by simp
  then show ?thesis
    using d by (simp add: py_nat_def s digit_val_digit_char digit_char_not_special)
qed

lemma int_strip_no_space_ends:
  assumes "s \<noteq> []" "\<not> int_space (hd s)" "\<not> int_space (last s)"
  shows "int_strip s = s"
proof -
  have l: "dropWhile int_space s = s"
    using assms by (cases s) simp_all
  have "rev s \<noteq> []" "\<not> int_space (hd (rev s))"
    using assms by (simp_all add: hd_rev)
  then have "dropWhile int_space (rev s) = rev s"
    by (cases "rev s") simp_all
  with l show ?thesis
    by (simp add: int_strip_def)
qed

lemma py_int_str_nat: "py_int (str_nat n) = Some (int n)"
proof -
  obtain d cs where d: "d < 10" and h: "str_nat n = digit_char d # cs"
    using str_nat_hd by blast
  obtain e bs where e: "e < 10" and t: "str_nat n = bs @ [digit_char e]"
    using str_nat_last by blast
  have "int_strip (str_nat n) = str_nat n"
  proof (intro int_strip_no_space_ends)
    show "str_nat n \<noteq> []" by (simp add: h)
    show "\<not> int_space (hd (str_nat n))" using d by (simp add: h digit_char_not_special)
    show "\<not> int_space (last (str_nat n))" using e by (simp add: t digit_char_not_special)
  qed
  then have s: "int_strip (digit_char d # cs) = digit_char d # cs"
    by (simp add: h)
  have p: "py_nat (digit_char d # cs) = Some n"
    using py_nat_str_nat [of n] by (simp add: h)
  show ?thesis
    unfolding py_int_def h s using d p by (simp add: digit_char_not_special)
qed

lemma py_int_minus_str_nat: "py_int (CHR ''-'' # str_nat n) = Some (- int n)"
proof -
  obtain e bs where e: "e < 10" and t: "str_nat n = bs @ [digit_char e]"
    using str_nat_last by blast
  have s: "int_strip (CHR ''-'' # str_nat n) = CHR ''-'' # str_nat n"
  proof (intro int_strip_no_space_ends)
    show "CHR ''-'' # str_nat n \<noteq> []" by simp
    show "\<not> int_space (hd (CHR ''-'' # str_nat n))" by (simp add: int_space_def)
    show "\<not> int_space (last (CHR ''-'' # str_nat n))"
      using e by (simp add: t digit_char_not_special)
  qed
  show ?thesis
    unfolding py_int_def s by (simp add: py_nat_str_nat)
qed

lemma py_int_str_int: "py_int (str_int i) = Some i"
proof (cases "i < 0")
  case True
  then show ?thesis
    using py_int_minus_str_nat [of "nat (- i)"] by (simp add: str_int_def)
next
  case False
  then show ?thesis
    using py_int_str_nat [of "nat i"] by (simp add: str_int_def)
qed

lemma ocr_module_init_toggles:
  "ocr_module_init k w = Some m \<Longrightarrow>
   DEFAULT_FLASH_ATTN m = truthy (getenv w ''FLASH_ATTN'' ''1'') \<and>
   DEFAULT_MLOCK m = truthy (getenv w ''MLOCK'' ''1'')"
  by (auto simp: ocr_module_init_def split: Option.bind_splits)

lemma ocr_execute_first_event: "hd (events (ocr_execute w m command)) = Spawn command"
  by (simp add: ocr_execute_def Let_def split: child.splits)

subsection \<open>The toggles\<close>

text \<open>
  C3. In the command of chat.py the words after the eight flag and value pairs are
  \<open>-fa\<close> exactly when \<open>flash_attn\<close> is true, then \<open>--mlock\<close> exactly when \<open>mlock\<close> is true,
  and nothing else; in the command of the OCR scripts the same holds after the eleven
  pairs, for the module-level DEFAULT\_FLASH\_ATTN and DEFAULT\_MLOCK. The words
  \<open>true\<close> and \<open>false\<close> never stand there.
\<close>

theorem toggles_are_bare_flags:
  "chat_toggles (chat_command m a) =
     (if flash_attn a then [''-fa''] else []) @ (if mlock a then [''--mlock''] else []) \<and>
   (''-fa'' \<in> set (chat_toggles (chat_command m a)) \<longleftrightarrow> flash_attn a) \<and>
   (''--mlock'' \<in> set (chat_toggles (chat_command m a)) \<longleftrightarrow> mlock a) \<and>
   ''true'' \<notin> set (chat_toggles (chat_command m a)) \<and>
   ''false'' \<notin> set (chat_toggles (chat_command m a)) \<and>
   length (chat_command m a) = 17 + length (chat_toggles (chat_command m a)) \<and>
   ocr_toggles (ocr_command m' a') =
     (if DEFAULT_FLASH_ATTN m' then [''-fa''] else []) @
     (if DEFAULT_MLOCK m' then [''--mlock''] else []) \<and>
   (''-fa'' \<in> set (ocr_toggles (ocr_command m' a')) \<longleftrightarrow> DEFAULT_FLASH_ATTN m') \<and>
   (''--mlock'' \<in> set (ocr_toggles (ocr_command m' a')) \<longleftrightarrow> DEFAULT_MLOCK m') \<and>
   ''true'' \<notin> set (ocr_toggles (ocr_command m' a')) \<and>
   ''false'' \<notin> set (ocr_toggles (ocr_command m' a')) \<and>
   length (ocr_command m' a') = 23 + length (ocr_toggles (ocr_command m' a'))"
  by (simp add: chat_toggles_def chat_command_def ocr_toggles_def ocr_command_def)

theorem toggles_are_bare_flags_witness:
  "chat_toggles (chat_command sample_chat_module
     ((chat_defaults sample_chat_module)\<lparr>flash_attn := False\<rparr>)) = [''--mlock''] \<and>
   ocr_toggles (ocr_command (sample_ocr_module Ocr_tx) (ocr_defaults (sample_ocr_module Ocr_tx)))
     = [''-fa'', ''--mlock'']"
  using toggles_are_bare_flags [of sample_chat_module
      "(chat_defaults sample_chat_module)\<lparr>flash_attn := False\<rparr>"
      "sample_ocr_module Ocr_tx" "ocr_defaults (sample_ocr_module Ocr_tx)"]
  by (simp add: chat_defaults_def sample_chat_module_def sample_ocr_module_def)

text \<open>
  C9. In the OCR scripts the toggle words of the command are fixed by the environment
  variables FLASH\_ATTN and MLOCK alone: \<open>-fa\<close> stands there exactly when FLASH\_ATTN
  (\<open>1\<close> when unset) is one of \<open>1\<close>, \<open>true\<close>, \<open>yes\<close>, \<open>on\<close> in any case, and likewise
  \<open>--mlock\<close> for MLOCK. Two invocations that agree on these two variables and both reach
  a launch configuration have the same toggle words, whatever their command lines and
  whichever of the two scripts they run; with the files in place that command is the one
  handed to \<open>subprocess.run\<close>.
\<close>

theorem ocr_toggles_from_environment_only:
  "ocr_launch_config k w argv = Some (m, a) \<and> ocr_launch_config k' w' argv' = Some (m', a') \<and>
   environ w ''FLASH_ATTN'' = environ w' ''FLASH_ATTN'' \<and>
   environ w ''MLOCK'' = environ w' ''MLOCK''
   \<longrightarrow> ocr_toggles (ocr_command m a) = ocr_toggles (ocr_command m' a') \<and>
       ocr_toggles (ocr_command m a) =
         (if truthy (getenv w ''FLASH_ATTN'' ''1'') then [''-fa''] else []) @
         (if truthy (getenv w ''MLOCK'' ''1'') then [''--mlock''] else []) \<and>
       (ocr_files_exist w a \<longrightarrow> hd (events (ocr_main k w argv)) = Spawn (ocr_command m a))"
proof (intro impI, elim conjE)
  assume c: "ocr_launch_config k w argv = Some (m, a)"
    and c': "ocr_launch_config k' w' argv' = Some (m', a')"
    and e: "environ w ''FLASH_ATTN'' = environ w' ''FLASH_ATTN''"
      "environ w ''MLOCK'' = environ w' ''MLOCK''"
  have i: "ocr_module_init k w = Some m" "ocr_module_init k' w' = Some m'"
    using c c' by (auto simp: ocr_launch_config_def split: option.splits sum.splits)
  have g: "getenv w ''FLASH_ATTN'' ''1'' = getenv w' ''FLASH_ATTN'' ''1''"
    "getenv w ''MLOCK'' ''1'' = getenv w' ''MLOCK'' ''1''"
    using e by (simp_all add: getenv_def)
  have t: "ocr_toggles (ocr_command m a) =
         (if truthy (getenv w ''FLASH_ATTN'' ''1'') then [''-fa''] else []) @
         (if truthy (getenv w ''MLOCK'' ''1'') then [''--mlock''] else [])"
    using ocr_module_init_toggles [OF i(1)] by (simp add: ocr_toggles_def ocr_command_def)
  have t': "ocr_toggles (ocr_command m' a') =
         (if truthy (getenv w' ''FLASH_ATTN'' ''1'') then [''-fa''] else []) @
         (if truthy (getenv w' ''MLOCK'' ''1'') then [''--mlock''] else [])"
    using ocr_module_init_toggles [OF i(2)] by (simp add: ocr_toggles_def ocr_command_def)
  have s: "ocr_files_exist w a \<longrightarrow> hd (events (ocr_main k w argv)) = Spawn (ocr_command m a)"
    using c by (simp add: ocr_main_run ocr_run_execute ocr_execute_first_event)
  show "ocr_toggles (ocr_command m a) = ocr_toggles (ocr_command m' a') \<and>
       ocr_toggles (ocr_command m a) =
         (if truthy (getenv w ''FLASH_ATTN'' ''1'') then [''-fa''] else []) @
         (if truthy (getenv w ''MLOCK'' ''1'') then [''--mlock''] else []) \<and>
       (ocr_files_exist w a \<longrightarrow> hd (events (ocr_main k w argv)) = Spawn (ocr_command m a))"
    using t t' g s by simp
qed

subsection \<open>Layering\<close>

lemma getenv_layered: "getenv w name d = layered d (environ w name) None"
  by (simp add: getenv_def layered_def split: option.splits)

lemma chat_scan_given:
  assumes step: "\<And>a0 x a1. chat_take_action a0 x = Inr a1 \<Longrightarrow>
      Some (sel a1) = (case f x of Some s \<Rightarrow> conv s | None \<Rightarrow> Some (sel a0))"
  shows "chat_scan a0 argv = Inr a \<Longrightarrow>
      Some (sel a) = (case given f argv of Some s \<Rightarrow> conv s | None \<Rightarrow> Some (sel a0))"
proof (induction argv arbitrary: a0)
  case Nil
  then show ?case by simp
next
  case (Cons x xs)
  then obtain a1 where t: "chat_take_action a0 x = Inr a1" and r: "chat_scan a1 xs = Inr a"
    by (auto split: sum.splits)
  have "Some (sel a) = (case given f xs of Some s \<Rightarrow> conv s | None \<Rightarrow> Some (sel a1))"
    using Cons.IH [OF r] .
  with step [OF t] show ?case
    by (simp split: option.splits)
qed

lemma ocr_scan_given:
  assumes step: "\<And>a0 x a1. ocr_take_action w a0 x = Inr a1 \<Longrightarrow>
      Some (sel a1) = (case f x of Some s \<Rightarrow> conv s | None \<Rightarrow> Some (sel a0))"
  shows "ocr_scan w a0 argv = Inr a \<Longrightarrow>
      Some (sel a) = (case given f argv of Some s \<Rightarrow> conv s | None \<Rightarrow> Some (sel a0))"
proof (induction argv arbitrary: a0)
  case Nil
  then show ?case by simp
next
  case (Cons x xs)
  then obtain a1 where t: "ocr_take_action w a0 x = Inr a1" and r: "ocr_scan w a1 xs = Inr a"
    by (auto split: sum.splits)
  have "Some (sel a) = (case given f xs of Some s \<Rightarrow> conv s | None \<Rightarrow> Some (sel a1))"
    using Cons.IH [OF r] .
  with step [OF t] show ?case
    by (simp split: option.splits)
qed

lemma chat_config_parts:
  assumes "chat_launch_config w argv = Some (m, a)"
  shows "chat_module_init w = Some m" and "chat_scan (chat_defaults m) argv = Inr a"
  using assms
  by (auto simp: chat_launch_config_def chat_parse_args_def
      split: option.splits sum.splits if_splits)

lemma ocr_config_parts:
  assumes "ocr_launch_config k w argv = Some (m, a)"
  shows "ocr_module_init k w = Some m" and "ocr_scan w (ocr_defaults m) argv = Inr a"
  using assms
  by (auto simp: ocr_launch_config_def ocr_parse_args_def
      split: option.splits sum.splits if_splits)

lemma chat_module_values:
  assumes "chat_module_init w = Some m"
  shows "py_int (getenv w ''SERVER_PORT'' ''4000'') = Some (DEFAULT_PORT m)"
    and "py_int (getenv w ''N_GPU_LAYERS'' ''48'') = Some (chat_module.DEFAULT_NGL m)"
    and "py_int (getenv w ''CONTEXT_SIZE'' ''8192'') = Some (chat_module.DEFAULT_CTX m)"
    and "py_int (getenv w ''BATCH_SIZE'' ''512'') = Some (DEFAULT_BATCH_SIZE m)"
    and "py_int (getenv w ''UBATCH_SIZE'' ''128'') = Some (DEFAULT_UBATCH_SIZE m)"
    and "chat_module.DATA_DIR m = chat_data_dir w"
    and "chat_module.DEFAULT_MODEL_PATH m = chat_model_path w"
    and "chat_module.DEFAULT_CACHE_TYPE_K m = getenv w ''CACHE_TYPE_K'' ''q5_1''"
    and "chat_module.DEFAULT_CACHE_TYPE_V m = getenv w ''CACHE_TYPE_V'' ''q5_1''"
    and "chat_module.DEFAULT_FLASH_ATTN m = truthy (getenv w ''FLASH_ATTN'' ''1'')"
    and "chat_module.DEFAULT_MLOCK m = truthy (getenv w ''MLOCK'' ''1'')"
    and "LLAMA_SERVER_EXECUTABLE m = getenv w ''LLAMA_SERVER_EXECUTABLE'' ''llama-server''"
  using assms by (auto simp: chat_module_init_def split: Option.bind_splits)

lemma ocr_module_values:
  assumes "ocr_module_init k w = Some m"
  shows "py_int (getenv w ''N_GPU_LAYERS'' ''34'') = Some (DEFAULT_NGL m)"
    and "py_int (getenv w ''THREADS'' ''3'') = Some (DEFAULT_THREADS m)"
    and "py_int (getenv w ''CONTEXT_SIZE'' ''16384'') = Some (DEFAULT_CTX m)"
    and "py_int (getenv w ''N_PREDICT'' (n_predict_text k)) = Some (DEFAULT_N_PREDICT m)"
    and "float_repr w (getenv w ''TEMPERATURE'' ''0.3'') = Some (DEFAULT_TEMP m)"
    and "DATA_DIR m = ocr_data_dir w"
    and "DEFAULT_MODEL_PATH m =
           getenv w ''MODEL_PATH'' (ocr_data_file w ''gemma-3-4b-it-Q5_K_M.gguf'')"
    and "DEFAULT_MMPROJ_PATH m = getenv w ''MMPROJ_PATH'' (ocr_data_file w ''mmproj-BF16.gguf'')"
    and "DEFAULT_IMAGE_PATH m = getenv w ''IMAGE_PATH'' (ocr_data_file w ''temp.png'')"
    and "DEFAULT_CACHE_TYPE_K m = getenv w ''CACHE_TYPE_K'' ''q4_1''"
    and "DEFAULT_CACHE_TYPE_V m = getenv w ''CACHE_TYPE_V'' ''q4_1''"
    and "LLAMA_CLI_EXECUTABLE m = getenv w ''LLAMA_CLI_EXECUTABLE'' ''llama-gemma3-cli''"
    and "PROMPT m = getenv w (prompt_variable k) (prompt_text k)"
  using assms by (auto simp: ocr_module_init_def split: Option.bind_splits)

lemma chat_step_model:
  "chat_take_action a0 x = Inr a1 \<Longrightarrow>
   Some (chat_args.model a1) = (case chat_cli_model x of Some s \<Rightarrow> (\<lambda>s. Some (PurePath s)) s | None \<Rightarrow> Some (chat_args.model a0))"
  by (cases x) (auto simp: chat_cli_model_def int_value_def split: option.splits)

lemma chat_layered_model:
  assumes "chat_launch_config w argv = Some (m, a)"
  shows "chat_args.model a = PurePath (layered (str_path (truediv (PurePath (chat_module.DATA_DIR m)) ''gemma-3-4b-it-Q5_K_M.gguf'')) (environ w ''MODEL_PATH'') (given chat_cli_model argv))"
proof -
  have i: "chat_module_init w = Some m" and s: "chat_scan (chat_defaults m) argv = Inr a"
    using assms by (rule chat_config_parts)+
  show ?thesis
    using chat_scan_given [where sel = "chat_args.model" and f = chat_cli_model and conv = "(\<lambda>s. Some (PurePath s))", OF chat_step_model s]
      chat_module_values(6,7) [OF i]
    by (simp add: layered_def getenv_def chat_defaults_def chat_model_path_def chat_data_dir_def split: option.splits)
qed

lemma chat_step_port:
  "chat_take_action a0 x = Inr a1 \<Longrightarrow>
   Some (port a1) = (case chat_cli_port x of Some s \<Rightarrow> py_int s | None \<Rightarrow> Some (port a0))"
  by (cases x) (auto simp: chat_cli_port_def int_value_def split: option.splits)

lemma chat_layered_port:
  assumes "chat_launch_config w argv = Some (m, a)"
  shows "py_int (layered ''4000'' (environ w ''SERVER_PORT'') (given chat_cli_port argv)) = Some (port a)"
proof -
  have i: "chat_module_init w = Some m" and s: "chat_scan (chat_defaults m) argv = Inr a"
    using assms by (rule chat_config_parts)+
  show ?thesis
    using chat_scan_given [where sel = "port" and f = chat_cli_port and conv = "py_int", OF chat_step_port s]
      chat_module_values(1) [OF i]
    by (simp add: layered_def getenv_def chat_defaults_def chat_model_path_def chat_data_dir_def split: option.splits)
qed

lemma chat_step_n_gpu_layers:
  "chat_take_action a0 x = Inr a1 \<Longrightarrow>
   Some (n_gpu_layers a1) = (case chat_cli_n_gpu_layers x of Some s \<Rightarrow> py_int s | None \<Rightarrow> Some (n_gpu_layers a0))"
  by (cases x) (auto simp: chat_cli_n_gpu_layers_def int_value_def split: option.splits)

lemma chat_layered_n_gpu_layers:
  assumes "chat_launch_config w argv = Some (m, a)"
  shows "py_int (layered ''48'' (environ w ''N_GPU_LAYERS'') (given chat_cli_n_gpu_layers argv)) = Some (n_gpu_layers a)"
proof -
  have i: "chat_module_init w = Some m" and s: "chat_scan (chat_defaults m) argv = Inr a"
    using assms by (rule chat_config_parts)+
  show ?thesis
    using chat_scan_given [where sel = "n_gpu_layers" and f = chat_cli_n_gpu_layers and conv = "py_int", OF chat_step_n_gpu_layers s]
      chat_module_values(2) [OF i]
    by (simp add: layered_def getenv_def chat_defaults_def chat_model_path_def chat_data_dir_def split: option.splits)
qed

lemma chat_step_context_size:
  "chat_take_action a0 x = Inr a1 \<Longrightarrow>
   Some (chat_args.context_size a1) = (case chat_cli_context_size x of Some s \<Rightarrow> py_int s | None \<Rightarrow> Some (chat_args.context_size a0))"
  by (cases x) (auto simp: chat_cli_context_size_def int_value_def split: option.splits)

lemma chat_layered_context_size:
  assumes "chat_launch_config w argv = Some (m, a)"
  shows "py_int (layered ''8192'' (environ w ''CONTEXT_SIZE'') (given chat_cli_context_size argv)) = Some (chat_args.context_size a)"
proof -
  have i: "chat_module_init w = Some m" and s: "chat_scan (chat_defaults m) argv = Inr a"
    using assms by (rule chat_config_parts)+
  show ?thesis
    using chat_scan_given [where sel = "chat_args.context_size" and f = chat_cli_context_size and conv = "py_int", OF chat_step_context_size s]
      chat_module_values(3) [OF i]
    by (simp add: layered_def getenv_def chat_defaults_def chat_model_path_def chat_data_dir_def split: option.splits)
qed

lemma chat_step_batch_size:
  "chat_take_action a0 x = Inr a1 \<Longrightarrow>
   Some (batch_size a1) = (case chat_cli_batch_size x of Some s \<Rightarrow> py_int s | None \<Rightarrow> Some (batch_size a0))"
  by (cases x) (auto simp: chat_cli_batch_size_def int_value_def split: option.splits)

lemma chat_layered_batch_size:
  assumes "chat_launch_config w argv = Some (m, a)"
  shows "py_int (layered ''512'' (environ w ''BATCH_SIZE'') (given chat_cli_batch_size argv)) = Some (batch_size a)"
proof -
  have i: "chat_module_init w = Some m" and s: "chat_scan (chat_defaults m) argv = Inr a"
    using assms by (rule chat_config_parts)+
  show ?thesis
    using chat_scan_given [where sel = "batch_size" and f = chat_cli_batch_size and conv = "py_int", OF chat_step_batch_size s]
      chat_module_values(4) [OF i]
    by (simp add: layered_def getenv_def chat_defaults_def chat_model_path_def chat_data_dir_def split: option.splits)
qed

lemma chat_step_ubatch_size:
  "chat_take_action a0 x = Inr a1 \<Longrightarrow>
   Some (ubatch_size a1) = (case chat_cli_ubatch_size x of Some s \<Rightarrow> py_int s | None \<Rightarrow> Some (ubatch_size a0))"
  by (cases x) (auto simp: chat_cli_ubatch_size_def int_value_def split: option.splits)

lemma chat_layered_ubatch_size:
  assumes "chat_launch_config w argv = Some (m, a)"
  shows "py_int (layered ''128'' (environ w ''UBATCH_SIZE'') (given chat_cli_ubatch_size argv)) = Some (ubatch_size a)"
proof -
  have i: "chat_module_init w = Some m" and s: "chat_scan (chat_defaults m) argv = Inr a"
    using assms by (rule chat_config_parts)+
  show ?thesis
    using chat_scan_given [where sel = "ubatch_size" and f = chat_cli_ubatch_size and conv = "py_int", OF chat_step_ubatch_size s]
      chat_module_values(5) [OF i]
    by (simp add: layered_def getenv_def chat_defaults_def chat_model_path_def chat_data_dir_def split: option.splits)
qed

lemma chat_step_cache_type_k:
  "chat_take_action a0 x = Inr a1 \<Longrightarrow>
   Some (chat_args.cache_type_k a1) = (case chat_cli_cache_type_k x of Some s \<Rightarrow> Some s | None \<Rightarrow> Some (chat_args.cache_type_k a0))"
  by (cases x) (auto simp: chat_cli_cache_type_k_def int_value_def split: option.splits)

lemma chat_layered_cache_type_k:
  assumes "chat_launch_config w argv = Some (m, a)"
  shows "chat_args.cache_type_k a = layered ''q5_1'' (environ w ''CACHE_TYPE_K'') (given chat_cli_cache_type_k argv)"
proof -
  have i: "chat_module_init w = Some m" and s: "chat_scan (chat_defaults m) argv = Inr a"
    using assms by (rule chat_config_parts)+
  show ?thesis
    using chat_scan_given [where sel = "chat_args.cache_type_k" and f = chat_cli_cache_type_k and conv = "Some", OF chat_step_cache_type_k s]
      chat_module_values(8) [OF i]
    by (simp add: layered_def getenv_def chat_defaults_def chat_model_path_def chat_data_dir_def split: option.splits)
qed

lemma chat_step_cache_type_v:
  "chat_take_action a0 x = Inr a1 \<Longrightarrow>
   Some (chat_args.cache_type_v a1) = (case chat_cli_cache_type_v x of Some s \<Rightarrow> Some s | None \<Rightarrow> Some (chat_args.cache_type_v a0))"
  by (cases x) (auto simp: chat_cli_cache_type_v_def int_value_def split: option.splits)

lemma chat_layered_cache_type_v:
  assumes "chat_launch_config w argv = Some (m, a)"
  shows "chat_args.cache_type_v a = layered ''q5_1'' (environ w ''CACHE_TYPE_V'') (given chat_cli_cache_type_v argv)"
proof -
  have i: "chat_module_init w = Some m" and s: "chat_scan (chat_defaults m) argv = Inr a"
    using assms by (rule chat_config_parts)+
  show ?thesis
    using chat_scan_given [where sel = "chat_args.cache_type_v" and f = chat_cli_cache_type_v and conv = "Some", OF chat_step_cache_type_v s]
      chat_module_values(9) [OF i]
    by (simp add: layered_def getenv_def chat_defaults_def chat_model_path_def chat_data_dir_def split: option.splits)
qed

lemma chat_step_flash_attn:
  "chat_take_action a0 x = Inr a1 \<Longrightarrow>
   Some (flash_attn a1) = (case chat_cli_flash_attn x of Some s \<Rightarrow> Some s | None \<Rightarrow> Some (flash_attn a0))"
  by (cases x) (auto simp: chat_cli_flash_attn_def int_value_def split: option.splits)

lemma chat_layered_flash_attn:
  assumes "chat_launch_config w argv = Some (m, a)"
  shows "flash_attn a = layered (truthy ''1'') (map_option truthy (environ w ''FLASH_ATTN'')) (given chat_cli_flash_attn argv)"
proof -
  have i: "chat_module_init w = Some m" and s: "chat_scan (chat_defaults m) argv = Inr a"
    using assms by (rule chat_config_parts)+
  show ?thesis
    using chat_scan_given [where sel = "flash_attn" and f = chat_cli_flash_attn and conv = "Some", OF chat_step_flash_attn s]
      chat_module_values(10) [OF i]
    by (simp add: layered_def getenv_def chat_defaults_def chat_model_path_def chat_data_dir_def split: option.splits)
qed

lemma chat_step_mlock:
  "chat_take_action a0 x = Inr a1 \<Longrightarrow>
   Some (mlock a1) = (case chat_cli_mlock x of Some s \<Rightarrow> Some s | None \<Rightarrow> Some (mlock a0))"
  by (cases x) (auto simp: chat_cli_mlock_def int_value_def split: option.splits)

lemma chat_layered_mlock:
  assumes "chat_launch_config w argv = Some (m, a)"
  shows "mlock a = layered (truthy ''1'') (map_option truthy (environ w ''MLOCK'')) (given chat_cli_mlock argv)"
proof -
  have i: "chat_module_init w = Some m" and s: "chat_scan (chat_defaults m) argv = Inr a"
    using assms by (rule chat_config_parts)+
  show ?thesis
    using chat_scan_given [where sel = "mlock" and f = chat_cli_mlock and conv = "Some", OF chat_step_mlock s]
      chat_module_values(11) [OF i]
    by (simp add: layered_def getenv_def chat_defaults_def chat_model_path_def chat_data_dir_def split: option.splits)
qed

lemma ocr_step_ngl:
  "ocr_take_action w a0 x = Inr a1 \<Longrightarrow>
   Some (ngl a1) = (case ocr_cli_ngl x of Some s \<Rightarrow> py_int s | None \<Rightarrow> Some (ngl a0))"
  by (cases x) (auto simp: ocr_cli_ngl_def int_value_def float_value_def split: option.splits)

lemma ocr_layered_ngl:
  assumes "ocr_launch_config k w argv = Some (m, a)"
  shows "py_int (layered ''34'' (environ w ''N_GPU_LAYERS'') (given ocr_cli_ngl argv)) = Some (ngl a)"
proof -
  have i: "ocr_module_init k w = Some m" and s: "ocr_scan w (ocr_defaults m) argv = Inr a"
    using assms by (rule ocr_config_parts)+
  show ?thesis
    using ocr_scan_given [where w = w and sel = "ngl" and f = ocr_cli_ngl and conv = "py_int", OF ocr_step_ngl [where w = w] s]
      ocr_module_values(1) [OF i]
    by (simp add: layered_def getenv_def ocr_defaults_def ocr_data_file_def ocr_data_dir_def split: option.splits)
qed

lemma ocr_step_threads:
  "ocr_take_action w a0 x = Inr a1 \<Longrightarrow>
   Some (threads a1) = (case ocr_cli_threads x of Some s \<Rightarrow> py_int s | None \<Rightarrow> Some (threads a0))"
  by (cases x) (auto simp: ocr_cli_threads_def int_value_def float_value_def split: option.splits)

lemma ocr_layered_threads:
  assumes "ocr_launch_config k w argv = Some (m, a)"
  shows "py_int (layered ''3'' (environ w ''THREADS'') (given ocr_cli_threads argv)) = Some (threads a)"
proof -
  have i: "ocr_module_init k w = Some m" and s: "ocr_scan w (ocr_defaults m) argv = Inr a"
    using assms by (rule ocr_config_parts)+
  show ?thesis
    using ocr_scan_given [where w = w and sel = "threads" and f = ocr_cli_threads and conv = "py_int", OF ocr_step_threads [where w = w] s]
      ocr_module_values(2) [OF i]
    by (simp add: layered_def getenv_def ocr_defaults_def ocr_data_file_def ocr_data_dir_def split: option.splits)
qed

lemma ocr_step_context_size:
  "ocr_take_action w a0 x = Inr a1 \<Longrightarrow>
   Some (context_size a1) = (case ocr_cli_ctx x of Some s \<Rightarrow> py_int s | None \<Rightarrow> Some (context_size a0))"
  by (cases x) (auto simp: ocr_cli_ctx_def int_value_def float_value_def split: option.splits)

lemma ocr_layered_context_size:
  assumes "ocr_launch_config k w argv = Some (m, a)"
  shows "py_int (layered ''16384'' (environ w ''CONTEXT_SIZE'') (given ocr_cli_ctx argv)) = Some (context_size a)"
proof -
  have i: "ocr_module_init k w = Some m" and s: "ocr_scan w (ocr_defaults m) argv = Inr a"
    using assms by (rule ocr_config_parts)+
  show ?thesis
    using ocr_scan_given [where w = w and sel = "context_size" and f = ocr_cli_ctx and conv = "py_int", OF ocr_step_context_size [where w = w] s]
      ocr_module_values(3) [OF i]
    by (simp add: layered_def getenv_def ocr_defaults_def ocr_data_file_def ocr_data_dir_def split: option.splits)
qed

lemma ocr_step_n_predict:
  "ocr_take_action w a0 x = Inr a1 \<Longrightarrow>
   Some (n_predict a1) = (case ocr_cli_n_predict x of Some s \<Rightarrow> py_int s | None \<Rightarrow> Some (n_predict a0))"
  by (cases x) (auto simp: ocr_cli_n_predict_def int_value_def float_value_def split: option.splits)

lemma ocr_layered_n_predict:
  assumes "ocr_launch_config k w argv = Some (m, a)"
  shows "py_int (layered (n_predict_text k) (environ w ''N_PREDICT'') (given ocr_cli_n_predict argv)) = Some (n_predict a)"
proof -
  have i: "ocr_module_init k w = Some m" and s: "ocr_scan w (ocr_defaults m) argv = Inr a"
    using assms by (rule ocr_config_parts)+
  show ?thesis
    using ocr_scan_given [where w = w and sel = "n_predict" and f = ocr_cli_n_predict and conv = "py_int", OF ocr_step_n_predict [where w = w] s]
      ocr_module_values(4) [OF i]
    by (simp add: layered_def getenv_def ocr_defaults_def ocr_data_file_def ocr_data_dir_def split: option.splits)
qed

lemma ocr_step_temp:
  "ocr_take_action w a0 x = Inr a1 \<Longrightarrow>
   Some (temp a1) = (case ocr_cli_temp x of Some s \<Rightarrow> float_repr w s | None \<Rightarrow> Some (temp a0))"
  by (cases x) (auto simp: ocr_cli_temp_def int_value_def float_value_def split: option.splits)

lemma ocr_layered_temp:
  assumes "ocr_launch_config k w argv = Some (m, a)"
  shows "float_repr w (layered ''0.3'' (environ w ''TEMPERATURE'') (given ocr_cli_temp argv)) = Some (temp a)"
proof -
  have i: "ocr_module_init k w = Some m" and s: "ocr_scan w (ocr_defaults m) argv = Inr a"
    using assms by (rule ocr_config_parts)+
  show ?thesis
    using ocr_scan_given [where w = w and sel = "temp" and f = ocr_cli_temp and conv = "float_repr w", OF ocr_step_temp [where w = w] s]
      ocr_module_values(5) [OF i]
    by (simp add: layered_def getenv_def ocr_defaults_def ocr_data_file_def ocr_data_dir_def split: option.splits)
qed

lemma ocr_step_cache_type_k:
  "ocr_take_action w a0 x = Inr a1 \<Longrightarrow>
   Some (cache_type_k a1) = (case ocr_cli_cache_type_k x of Some s \<Rightarrow> Some s | None \<Rightarrow> Some (cache_type_k a0))"
  by (cases x) (auto simp: ocr_cli_cache_type_k_def int_value_def float_value_def split: option.splits)

lemma ocr_layered_cache_type_k:
  assumes "ocr_launch_config k w argv = Some (m, a)"
  shows "cache_type_k a = layered ''q4_1'' (environ w ''CACHE_TYPE_K'') (given ocr_cli_cache_type_k argv)"
proof -
  have i: "ocr_module_init k w = Some m" and s: "ocr_scan w (ocr_defaults m) argv = Inr a"
    using assms by (rule ocr_config_parts)+
  show ?thesis
    using ocr_scan_given [where w = w and sel = "cache_type_k" and f = ocr_cli_cache_type_k and conv = "Some", OF ocr_step_cache_type_k [where w = w] s]
      ocr_module_values(10) [OF i]
    by (simp add: layered_def getenv_def ocr_defaults_def ocr_data_file_def ocr_data_dir_def split: option.splits)
qed

lemma ocr_step_cache_type_v:
  "ocr_take_action w a0 x = Inr a1 \<Longrightarrow>
   Some (cache_type_v a1) = (case ocr_cli_cache_type_v x of Some s \<Rightarrow> Some s | None \<Rightarrow> Some (cache_type_v a0))"
  by (cases x) (auto simp: ocr_cli_cache_type_v_def int_value_def float_value_def split: option.splits)

lemma ocr_layered_cache_type_v:
  assumes "ocr_launch_config k w argv = Some (m, a)"
  shows "cache_type_v a = layered ''q4_1'' (environ w ''CACHE_TYPE_V'') (given ocr_cli_cache_type_v argv)"
proof -
  have i: "ocr_module_init k w = Some m" and s: "ocr_scan w (ocr_defaults m) argv = Inr a"
    using assms by (rule ocr_config_parts)+
  show ?thesis
    using ocr_scan_given [where w = w and sel = "cache_type_v" and f = ocr_cli_cache_type_v and conv = "Some", OF ocr_step_cache_type_v [where w = w] s]
      ocr_module_values(11) [OF i]
    by (simp add: layered_def getenv_def ocr_defaults_def ocr_data_file_def ocr_data_dir_def split: option.splits)
qed

lemma ocr_step_model:
  "ocr_take_action w a0 x = Inr a1 \<Longrightarrow>
   Some (model a1) = (case ocr_cli_model x of Some s \<Rightarrow> (\<lambda>s. Some (PurePath s)) s | None \<Rightarrow> Some (model a0))"
  by (cases x) (auto simp: ocr_cli_model_def int_value_def float_value_def split: option.splits)

lemma ocr_layered_model:
  assumes "ocr_launch_config k w argv = Some (m, a)"
  shows "model a = PurePath (layered (str_path (truediv (PurePath (DATA_DIR m)) ''gemma-3-4b-it-Q5_K_M.gguf'')) (environ w ''MODEL_PATH'') (given ocr_cli_model argv))"
proof -
  have i: "ocr_module_init k w = Some m" and s: "ocr_scan w (ocr_defaults m) argv = Inr a"
    using assms by (rule ocr_config_parts)+
  show ?thesis
    using ocr_scan_given [where w = w and sel = "model" and f = ocr_cli_model and conv = "(\<lambda>s. Some (PurePath s))", OF ocr_step_model [where w = w] s]
      ocr_module_values(6,7) [OF i]
    by (simp add: layered_def getenv_def ocr_defaults_def ocr_data_file_def ocr_data_dir_def split: option.splits)
qed

lemma ocr_step_mmproj:
  "ocr_take_action w a0 x = Inr a1 \<Longrightarrow>
   Some (mmproj a1) = (case ocr_cli_mmproj x of Some s \<Rightarrow> (\<lambda>s. Some (PurePath s)) s | None \<Rightarrow> Some (mmproj a0))"
  by (cases x) (auto simp: ocr_cli_mmproj_def int_value_def float_value_def split: option.splits)

lemma ocr_layered_mmproj:
  assumes "ocr_launch_config k w argv = Some (m, a)"
  shows "mmproj a = PurePath (layered (str_path (truediv (PurePath (DATA_DIR m)) ''mmproj-BF16.gguf'')) (environ w ''MMPROJ_PATH'') (given ocr_cli_mmproj argv))"
proof -
  have i: "ocr_module_init k w = Some m" and s: "ocr_scan w (ocr_defaults m) argv = Inr a"
    using assms by (rule ocr_config_parts)+
  show ?thesis
    using ocr_scan_given [where w = w and sel = "mmproj" and f = ocr_cli_mmproj and conv = "(\<lambda>s. Some (PurePath s))", OF ocr_step_mmproj [where w = w] s]
      ocr_module_values(6,8) [OF i]
    by (simp add: layered_def getenv_def ocr_defaults_def ocr_data_file_def ocr_data_dir_def split: option.splits)
qed

lemma ocr_step_image:
  "ocr_take_action w a0 x = Inr a1 \<Longrightarrow>
   Some (image a1) = (case ocr_cli_image x of Some s \<Rightarrow> (\<lambda>s. Some (PurePath s)) s | None \<Rightarrow> Some (image a0))"
  by (cases x) (auto simp: ocr_cli_image_def int_value_def float_value_def split: option.splits)

lemma ocr_layered_image:
  assumes "ocr_launch_config k w argv = Some (m, a)"
  shows "image a = PurePath (layered (str_path (truediv (PurePath (DATA_DIR m)) ''temp.png'')) (environ w ''IMAGE_PATH'') (given ocr_cli_image argv))"
proof -
  have i: "ocr_module_init k w = Some m" and s: "ocr_scan w (ocr_defaults m) argv = Inr a"
    using assms by (rule ocr_config_parts)+
  show ?thesis
    using ocr_scan_given [where w = w and sel = "image" and f = ocr_cli_image and conv = "(\<lambda>s. Some (PurePath s))", OF ocr_step_image [where w = w] s]
      ocr_module_values(6,9) [OF i]
    by (simp add: layered_def getenv_def ocr_defaults_def ocr_data_file_def ocr_data_dir_def split: option.splits)
qed

lemma chat_layered_module:
  assumes "chat_launch_config w argv = Some (m, a)"
  shows "chat_module.DATA_DIR m =
           layered (str_path (truediv (PurePath (script_dir w)) ''data'')) (environ w ''DATA_DIR'') None"
    and "LLAMA_SERVER_EXECUTABLE m =
           layered ''llama-server'' (environ w ''LLAMA_SERVER_EXECUTABLE'') None"
proof -
  have i: "chat_module_init w = Some m"
    using assms by (rule chat_config_parts)
  show "chat_module.DATA_DIR m =
           layered (str_path (truediv (PurePath (script_dir w)) ''data'')) (environ w ''DATA_DIR'') None"
    and "LLAMA_SERVER_EXECUTABLE m =
           layered ''llama-server'' (environ w ''LLAMA_SERVER_EXECUTABLE'') None"
    using chat_module_values [OF i] by (simp_all add: chat_data_dir_def getenv_layered)
qed

lemma ocr_layered_module:
  assumes "ocr_launch_config k w argv = Some (m, a)"
  shows "DATA_DIR m =
           layered (str_path (truediv (PurePath (script_dir w)) ''data'')) (environ w ''DATA_DIR'') None"
    and "DEFAULT_FLASH_ATTN m =
           layered (truthy ''1'') (map_option truthy (environ w ''FLASH_ATTN'')) None"
    and "DEFAULT_MLOCK m = layered (truthy ''1'') (map_option truthy (environ w ''MLOCK'')) None"
    and "LLAMA_CLI_EXECUTABLE m =
           layered ''llama-gemma3-cli'' (environ w ''LLAMA_CLI_EXECUTABLE'') None"
    and "PROMPT m = layered (prompt_text k) (environ w (prompt_variable k)) None"
proof -
  have i: "ocr_module_init k w = Some m"
    using assms by (rule ocr_config_parts)
  have t: "truthy (getenv w name ''1'') =
      layered (truthy ''1'') (map_option truthy (environ w name)) None" for name
    by (simp add: getenv_def layered_def split: option.splits)
  show "DATA_DIR m =
           layered (str_path (truediv (PurePath (script_dir w)) ''data'')) (environ w ''DATA_DIR'') None"
    and "LLAMA_CLI_EXECUTABLE m =
           layered ''llama-gemma3-cli'' (environ w ''LLAMA_CLI_EXECUTABLE'') None"
    and "PROMPT m = layered (prompt_text k) (environ w (prompt_variable k)) None"
    using ocr_module_values [OF i] by (simp_all add: ocr_data_dir_def getenv_layered)
  show "DEFAULT_FLASH_ATTN m =
           layered (truthy ''1'') (map_option truthy (environ w ''FLASH_ATTN'')) None"
    and "DEFAULT_MLOCK m = layered (truthy ''1'') (map_option truthy (environ w ''MLOCK'')) None"
    using ocr_module_init_toggles [OF i] by (simp_all add: t)
qed

lemma sample_truthy: "\<not> truthy ''0''" "\<not> truthy ''off''"
  by (simp_all add: truthy_def lower_def lower_char_def)

lemma truthy_upper_case: "truthy ''ON''"
  by code_simp

lemma py_int_more_samples:
  "py_int ''5000'' = Some 5000" "py_int ''4096'' = Some 4096" "py_int '' 2_048 '' = Some 2048"
  "py_int ''20'' = Some 20"
  by (simp_all add: py_int_def int_strip_def int_space_def py_nat_def digit_val_def)

lemma sample_ocr_init_no_flash_attn:
  "ocr_module_init k (sample_world [(''FLASH_ATTN'', ''0'')] c) =
     Some ((sample_ocr_module k)\<lparr>DEFAULT_FLASH_ATTN := False\<rparr>)"
  by (cases k)
    (simp_all add: ocr_module_init_def getenv_def py_int_samples truthy_1 sample_truthy
      ocr_data_dir_def ocr_data_file_def sample_world_simps sample_data_files
      sample_ocr_module_def)

text \<open>
  C8, as it stands, fails for the toggles of the OCR scripts: with FLASH\_ATTN set to
  \<open>0\<close>, the word \<open>-fa\<close> on the command line of ocr\_meta.py is not an option of its
  parser; argparse leaves with status 2, there is no launch configuration, and no command
  line gives one with \<open>-fa\<close> among the toggles (the plain one has \<open>--mlock\<close> alone).
\<close>

theorem ocr_cli_toggle_counterexample:
  "ocr_launch_config Ocr_meta (sample_world [(''FLASH_ATTN'', ''0'')] (Ended 0 [] []))
     [Ocr_unrecognized ''-fa''] = None \<and>
   ocr_main Ocr_meta (sample_world [(''FLASH_ATTN'', ''0'')] (Ended 0 [] []))
     [Ocr_unrecognized ''-fa''] =
     \<lparr> events = [Argparse_error (Unrecognized_arguments [''-fa''])], ending = SysExit 2 \<rparr> \<and>
   ocr_launch_config Ocr_meta (sample_world [(''FLASH_ATTN'', ''0'')] (Ended 0 [] [])) [] =
     Some ((sample_ocr_module Ocr_meta)\<lparr>DEFAULT_FLASH_ATTN := False\<rparr>,
           ocr_defaults ((sample_ocr_module Ocr_meta)\<lparr>DEFAULT_FLASH_ATTN := False\<rparr>)) \<and>
   ocr_toggles (ocr_command ((sample_ocr_module Ocr_meta)\<lparr>DEFAULT_FLASH_ATTN := False\<rparr>)
     (ocr_defaults ((sample_ocr_module Ocr_meta)\<lparr>DEFAULT_FLASH_ATTN := False\<rparr>))) =
     [''--mlock'']"
  by (simp add: ocr_launch_config_def ocr_main_def ocr_parse_args_def parser_left_def
      sample_ocr_init_no_flash_attn ocr_toggles_def ocr_command_def sample_ocr_module_def)

text \<open>
  C8, amended. Every option with a command-line flag (all ten of chat.py; in the OCR
  scripts ngl, threads, ctx, n-predict, temp, the two cache types, model, mmproj and image)
  has the value of its last occurrence on the command line when there is one, else of
  its environment variable when that is set, else the built-in default; integers and the
  float are read from the text so chosen, paths are made from it. The values without a
  flag (the data directory, the executable, the prompt, and in the OCR scripts flash
  attention and mlock) come from the environment variable when set, else the default.
\<close>

theorem sources_are_layered:
  "(chat_launch_config w argv = Some (m, a) \<longrightarrow>
      chat_args.model a = PurePath (layered (str_path (truediv (PurePath (chat_module.DATA_DIR m)) ''gemma-3-4b-it-Q5_K_M.gguf''))
           (environ w ''MODEL_PATH'') (given chat_cli_model argv)) \<and>
      py_int (layered ''4000''
           (environ w ''SERVER_PORT'') (given chat_cli_port argv)) = Some (port a) \<and>
      py_int (layered ''48''
           (environ w ''N_GPU_LAYERS'') (given chat_cli_n_gpu_layers argv)) = Some (n_gpu_layers a) \<and>
      py_int (layered ''8192''
           (environ w ''CONTEXT_SIZE'') (given chat_cli_context_size argv)) = Some (chat_args.context_size a) \<and>
      py_int (layered ''512''
           (environ w ''BATCH_SIZE'') (given chat_cli_batch_size argv)) = Some (batch_size a) \<and>
      py_int (layered ''128''
           (environ w ''UBATCH_SIZE'') (given chat_cli_ubatch_size argv)) = Some (ubatch_size a) \<and>
      chat_args.cache_type_k a = layered ''q5_1''
           (environ w ''CACHE_TYPE_K'') (given chat_cli_cache_type_k argv) \<and>
      chat_args.cache_type_v a = layered ''q5_1''
           (environ w ''CACHE_TYPE_V'') (given chat_cli_cache_type_v argv) \<and>
      flash_attn a = layered (truthy ''1'') (map_option truthy
           (environ w ''FLASH_ATTN'')) (given chat_cli_flash_attn argv) \<and>
      mlock a = layered (truthy ''1'') (map_option truthy
           (environ w ''MLOCK'')) (given chat_cli_mlock argv) \<and>
      chat_module.DATA_DIR m = layered (str_path (truediv (PurePath (script_dir w)) ''data''))
           (environ w ''DATA_DIR'') None \<and>
      LLAMA_SERVER_EXECUTABLE m = layered ''llama-server''
           (environ w ''LLAMA_SERVER_EXECUTABLE'') None)
   \<and> (ocr_launch_config k w argv' = Some (m', a') \<longrightarrow>
      py_int (layered ''34''
           (environ w ''N_GPU_LAYERS'') (given ocr_cli_ngl argv')) = Some (ngl a') \<and>
      py_int (layered ''3''
           (environ w ''THREADS'') (given ocr_cli_threads argv')) = Some (threads a') \<and>
      py_int (layered ''16384''
           (environ w ''CONTEXT_SIZE'') (given ocr_cli_ctx argv')) = Some (context_size a') \<and>
      py_int (layered (n_predict_text k)
           (environ w ''N_PREDICT'') (given ocr_cli_n_predict argv')) = Some (n_predict a') \<and>
      float_repr w (layered ''0.3''
           (environ w ''TEMPERATURE'') (given ocr_cli_temp argv')) = Some (temp a') \<and>
      cache_type_k a' = layered ''q4_1''
           (environ w ''CACHE_TYPE_K'') (given ocr_cli_cache_type_k argv') \<and>
      cache_type_v a' = layered ''q4_1''
           (environ w ''CACHE_TYPE_V'') (given ocr_cli_cache_type_v argv') \<and>
      model a' = PurePath (layered (str_path (truediv (PurePath (DATA_DIR m')) ''gemma-3-4b-it-Q5_K_M.gguf''))
           (environ w ''MODEL_PATH'') (given ocr_cli_model argv')) \<and>
      mmproj a' = PurePath (layered (str_path (truediv (PurePath (DATA_DIR m')) ''mmproj-BF16.gguf''))
           (environ w ''MMPROJ_PATH'') (given ocr_cli_mmproj argv')) \<and>
      image a' = PurePath (layered (str_path (truediv (PurePath (DATA_DIR m')) ''temp.png''))
           (environ w ''IMAGE_PATH'') (given ocr_cli_image argv')) \<and>
      DATA_DIR m' = layered (str_path (truediv (PurePath (script_dir w)) ''data''))
           (environ w ''DATA_DIR'') None \<and>
      DEFAULT_FLASH_ATTN m' = layered (truthy ''1'') (map_option truthy
           (environ w ''FLASH_ATTN'')) None \<and>
      DEFAULT_MLOCK m' = layered (truthy ''1'') (map_option truthy
           (environ w ''MLOCK'')) None \<and>
      LLAMA_CLI_EXECUTABLE m' = layered ''llama-gemma3-cli''
           (environ w ''LLAMA_CLI_EXECUTABLE'') None \<and>
      PROMPT m' = layered (prompt_text k)
           (environ w (prompt_variable k)) None)"
  by (intro conjI impI; (rule chat_layered_model chat_layered_port chat_layered_n_gpu_layers chat_layered_context_size chat_layered_batch_size chat_layered_ubatch_size chat_layered_cache_type_k chat_layered_cache_type_v chat_layered_flash_attn chat_layered_mlock chat_layered_module ocr_layered_ngl ocr_layered_threads ocr_layered_context_size ocr_layered_n_predict ocr_layered_temp ocr_layered_cache_type_k ocr_layered_cache_type_v ocr_layered_model ocr_layered_mmproj ocr_layered_image ocr_layered_module; assumption))

lemma sample_chat_init_overrides:
  "chat_module_init
     (sample_world [(''SERVER_PORT'', ''5000''), (''CONTEXT_SIZE'', ''4096''), (''MLOCK'', ''ON'')] c)
   = Some (sample_chat_module\<lparr>DEFAULT_PORT := 5000, chat_module.DEFAULT_CTX := 4096\<rparr>)"
  by (simp add: chat_module_init_def getenv_def py_int_samples py_int_more_samples truthy_1
      truthy_upper_case chat_data_dir_def chat_model_path_def sample_world_simps
      sample_data_files sample_chat_module_def)

lemma sample_ocr_init_overrides:
  "ocr_module_init Ocr_tx
     (sample_world [(''SERVER_PORT'', ''5000''), (''CONTEXT_SIZE'', ''4096''), (''MLOCK'', ''ON'')] c)
   = Some ((sample_ocr_module Ocr_tx)\<lparr>DEFAULT_CTX := 4096\<rparr>)"
  by (simp add: ocr_module_init_def getenv_def py_int_samples py_int_more_samples truthy_1
      truthy_upper_case ocr_data_dir_def ocr_data_file_def sample_world_simps
      sample_data_files sample_ocr_module_def)

theorem sources_are_layered_witness:
  "chat_launch_config
     (sample_world [(''SERVER_PORT'', ''5000''), (''CONTEXT_SIZE'', ''4096''), (''MLOCK'', ''ON'')]
        (Ended 0 [] []))
     [Chat_context_size '' 2_048 '', Chat_no_mlock] =
     Some (sample_chat_module\<lparr>DEFAULT_PORT := 5000, chat_module.DEFAULT_CTX := 4096\<rparr>,
           (chat_defaults (sample_chat_module\<lparr>DEFAULT_PORT := 5000, chat_module.DEFAULT_CTX := 4096\<rparr>))
             \<lparr>chat_args.context_size := 2048, mlock := False\<rparr>) \<and>
   py_int ''48'' = Some 48 \<and> py_int ''5000'' = Some 5000 \<and> py_int '' 2_048 '' = Some 2048 \<and>
   ocr_launch_config Ocr_tx
     (sample_world [(''SERVER_PORT'', ''5000''), (''CONTEXT_SIZE'', ''4096''), (''MLOCK'', ''ON'')]
        (Ended 0 [] []))
     [Ocr_ngl ''20''] =
     Some ((sample_ocr_module Ocr_tx)\<lparr>DEFAULT_CTX := 4096\<rparr>,
           (ocr_defaults ((sample_ocr_module Ocr_tx)\<lparr>DEFAULT_CTX := 4096\<rparr>))\<lparr>ngl := 20\<rparr>) \<and>
   py_int ''20'' = Some 20 \<and> py_int ''4096'' = Some 4096 \<and> py_int ''3'' = Some 3"
proof -
  let ?w = "sample_world
      [(''SERVER_PORT'', ''5000''), (''CONTEXT_SIZE'', ''4096''), (''MLOCK'', ''ON'')] (Ended 0 [] [])"
  let ?m = "sample_chat_module\<lparr>DEFAULT_PORT := 5000, chat_module.DEFAULT_CTX := 4096\<rparr>"
  let ?a = "(chat_defaults ?m)\<lparr>chat_args.context_size := 2048, mlock := False\<rparr>"
  let ?m' = "(sample_ocr_module Ocr_tx)\<lparr>DEFAULT_CTX := 4096\<rparr>"
  let ?a' = "(ocr_defaults ?m')\<lparr>ngl := 20\<rparr>"
  have c: "chat_launch_config ?w [Chat_context_size '' 2_048 '', Chat_no_mlock] = Some (?m, ?a)"
    by (simp add: chat_launch_config_def chat_parse_args_def sample_chat_init_overrides
        int_value_def py_int_more_samples)
  have c': "ocr_launch_config Ocr_tx ?w [Ocr_ngl ''20''] = Some (?m', ?a')"
    by (simp add: ocr_launch_config_def ocr_parse_args_def sample_ocr_init_overrides
        int_value_def py_int_more_samples)
  show ?thesis
    using sources_are_layered [of ?w "[Chat_context_size '' 2_048 '', Chat_no_mlock]" ?m ?a
        Ocr_tx "[Ocr_ngl ''20'']" ?m' ?a'] c c'
    by (simp add: layered_def sample_world_simps chat_cli_port_def chat_cli_n_gpu_layers_def
        chat_cli_context_size_def ocr_cli_ngl_def ocr_cli_ctx_def ocr_cli_threads_def
        chat_defaults_def ocr_defaults_def sample_chat_module_def sample_ocr_module_def)
qed

theorem ocr_toggles_from_environment_only_witness:
  "ocr_launch_config Ocr_meta (sample_world [(''FLASH_ATTN'', ''0'')] (Ended 0 [] [])) [] =
     Some ((sample_ocr_module Ocr_meta)\<lparr>DEFAULT_FLASH_ATTN := False\<rparr>,
           ocr_defaults ((sample_ocr_module Ocr_meta)\<lparr>DEFAULT_FLASH_ATTN := False\<rparr>)) \<and>
   ocr_launch_config Ocr_tx (sample_world [(''FLASH_ATTN'', ''0'')] FileNotFoundError)
     [Ocr_ctx ''4096'', Ocr_cache_type_k ''-fa''] =
     Some ((sample_ocr_module Ocr_tx)\<lparr>DEFAULT_FLASH_ATTN := False\<rparr>,
           (ocr_defaults ((sample_ocr_module Ocr_tx)\<lparr>DEFAULT_FLASH_ATTN := False\<rparr>))
             \<lparr>context_size := 4096, cache_type_k := ''-fa''\<rparr>) \<and>
   ocr_toggles (ocr_command ((sample_ocr_module Ocr_meta)\<lparr>DEFAULT_FLASH_ATTN := False\<rparr>)
     (ocr_defaults ((sample_ocr_module Ocr_meta)\<lparr>DEFAULT_FLASH_ATTN := False\<rparr>))) =
     [''--mlock''] \<and>
   ocr_toggles (ocr_command ((sample_ocr_module Ocr_tx)\<lparr>DEFAULT_FLASH_ATTN := False\<rparr>)
     ((ocr_defaults ((sample_ocr_module Ocr_tx)\<lparr>DEFAULT_FLASH_ATTN := False\<rparr>))
        \<lparr>context_size := 4096, cache_type_k := ''-fa''\<rparr>)) = [''--mlock'']"
proof -
  let ?w = "sample_world [(''FLASH_ATTN'', ''0'')] (Ended 0 [] [])"
  let ?w' = "sample_world [(''FLASH_ATTN'', ''0'')] FileNotFoundError"
  let ?m = "(sample_ocr_module Ocr_meta)\<lparr>DEFAULT_FLASH_ATTN := False\<rparr>"
  let ?m' = "(sample_ocr_module Ocr_tx)\<lparr>DEFAULT_FLASH_ATTN := False\<rparr>"
  let ?a' = "(ocr_defaults ?m')\<lparr>context_size := 4096, cache_type_k := ''-fa''\<rparr>"
  have c: "ocr_launch_config Ocr_meta ?w [] = Some (?m, ocr_defaults ?m)"
    by (simp add: ocr_config_no_arguments sample_ocr_init_no_flash_attn)
  have c': "ocr_launch_config Ocr_tx ?w' [Ocr_ctx ''4096'', Ocr_cache_type_k ''-fa''] =
      Some (?m', ?a')"
    by (simp add: ocr_launch_config_def ocr_parse_args_def sample_ocr_init_no_flash_attn
        int_value_def py_int_more_samples)
  have e: "environ ?w ''FLASH_ATTN'' = environ ?w' ''FLASH_ATTN''"
    "environ ?w ''MLOCK'' = environ ?w' ''MLOCK''"
    by (simp_all add: sample_world_simps)
  have g: "getenv ?w ''FLASH_ATTN'' ''1'' = ''0''" "getenv ?w ''MLOCK'' ''1'' = ''1''"
    by (simp_all add: getenv_def sample_world_simps)
  have h: "ocr_launch_config Ocr_meta ?w [] = Some (?m, ocr_defaults ?m) \<and>
      ocr_launch_config Ocr_tx ?w' [Ocr_ctx ''4096'', Ocr_cache_type_k ''-fa''] = Some (?m', ?a') \<and>
      environ ?w ''FLASH_ATTN'' = environ ?w' ''FLASH_ATTN'' \<and>
      environ ?w ''MLOCK'' = environ ?w' ''MLOCK''"
    using c c' e by (intro conjI)
  note r = ocr_toggles_from_environment_only [of Ocr_meta ?w "[]" ?m "ocr_defaults ?m" Ocr_tx ?w'
      "[Ocr_ctx ''4096'', Ocr_cache_type_k ''-fa'']" ?m' ?a', THEN mp, OF h]
  have t: "ocr_toggles (ocr_command ?m (ocr_defaults ?m)) = ocr_toggles (ocr_command ?m' ?a')"
    using r by (rule conjunct1)
  have u: "ocr_toggles (ocr_command ?m (ocr_defaults ?m)) = [''--mlock'']"
    using r [THEN conjunct2, THEN conjunct1] by (simp add: g sample_truthy truthy_1)
  from t u have v: "ocr_toggles (ocr_command ?m' ?a') = [''--mlock'']"
    by simp
  from c c' u v show ?thesis
    by (intro conjI)
qed

lemma digit_char_values:
  "digit_char 0 = CHR ''0''" "digit_char 1 = CHR ''1''" "digit_char 2 = CHR ''2''"
  "digit_char 3 = CHR ''3''" "digit_char 4 = CHR ''4''" "digit_char 5 = CHR ''5''"
  "digit_char 6 = CHR ''6''" "digit_char 7 = CHR ''7''" "digit_char 8 = CHR ''8''"
  "digit_char 9 = CHR ''9''"
  by (rule injD [OF inj_of_char [where ?'a = nat]], simp add: digit_char_def)+

lemma digit_char_Suc_0: "digit_char (Suc 0) = CHR ''1''"
  using digit_char_values(2) by simp

lemma str_int_samples:
  "str_int 16384 = ''16384''" "str_int 2 = ''2''" "str_int 4000 = ''4000''"
  by (simp_all add: str_int_def digit_char_values
      str_nat_unfold [of 16384] str_nat_unfold [of 1638] str_nat_unfold [of 163]
      str_nat_unfold [of 16] str_nat_unfold [of "Suc 0"] str_nat_unfold [of 2]
      digit_char_Suc_0
      str_nat_unfold [of 4000] str_nat_unfold [of 400] str_nat_unfold [of 40]
      str_nat_unfold [of 4])

lemma chat_run_spawns:
  "is_file w (str_path (chat_args.model a)) \<Longrightarrow>
   Spawn (chat_command m a) \<in> set (events (chat_run w m a))"
  by (simp add: chat_run_def Let_def split: child.splits)

subsection \<open>The argument vector\<close>

text \<open>
  C2. The command of chat.py is the executable, then eight flag and value pairs in the
  order \<open>-m\<close>, \<open>--port\<close>, \<open>-ngl\<close>, \<open>-c\<close>, \<open>-b\<close>, \<open>-ub\<close>, \<open>-ctk\<close>, \<open>-ctv\<close>, each flag once,
  then the toggles, each at most once; the command of the OCR scripts is the executable,
  then eleven pairs in the order \<open>-m\<close>, \<open>--mmproj\<close>, \<open>--image\<close>, \<open>-p\<close>, \<open>-ngl\<close>,
  \<open>--threads\<close>, \<open>-c\<close>, \<open>-n\<close>, \<open>--temp\<close>, \<open>-ctk\<close>, \<open>-ctv\<close>, then the toggles. Every value
  is the \<open>str\<close> of the configured value: a path as \<open>str\<close> gives it, an integer in decimal
  (16384 as \<open>16384\<close>, and \<open>int\<close> reads the value back from the text), text as it is.
  With the files in place this command is the one handed to \<open>subprocess.run\<close>.
\<close>

theorem command_is_rendered_in_order:
  "hd (chat_command m a) = LLAMA_SERVER_EXECUTABLE m \<and>
   option_pairs (take 16 (tl (chat_command m a))) =
     [(''-m'', str_path (chat_args.model a)),
      (''--port'', str_int (port a)),
      (''-ngl'', str_int (n_gpu_layers a)),
      (''-c'', str_int (chat_args.context_size a)),
      (''-b'', str_int (batch_size a)),
      (''-ub'', str_int (ubatch_size a)),
      (''-ctk'', chat_args.cache_type_k a),
      (''-ctv'', chat_args.cache_type_v a)] \<and>
   distinct (map fst (option_pairs (take 16 (tl (chat_command m a))))) \<and>
   distinct (chat_toggles (chat_command m a)) \<and>
   chat_command m a =
     hd (chat_command m a) # take 16 (tl (chat_command m a)) @ chat_toggles (chat_command m a) \<and>
   hd (ocr_command m' a') = LLAMA_CLI_EXECUTABLE m' \<and>
   option_pairs (take 22 (tl (ocr_command m' a'))) =
     [(''-m'', str_path (model a')),
      (''--mmproj'', str_path (mmproj a')),
      (''--image'', str_path (image a')),
      (''-p'', PROMPT m'),
      (''-ngl'', str_int (ngl a')),
      (''--threads'', str_int (threads a')),
      (''-c'', str_int (context_size a')),
      (''-n'', str_int (n_predict a')),
      (''--temp'', temp a'),
      (''-ctk'', cache_type_k a'),
      (''-ctv'', cache_type_v a')] \<and>
   distinct (map fst (option_pairs (take 22 (tl (ocr_command m' a'))))) \<and>
   distinct (ocr_toggles (ocr_command m' a')) \<and>
   ocr_command m' a' =
     hd (ocr_command m' a') # take 22 (tl (ocr_command m' a')) @ ocr_toggles (ocr_command m' a') \<and>
   str_int 16384 = ''16384'' \<and>
   py_int (str_int (chat_args.context_size a)) = Some (chat_args.context_size a) \<and>
   py_int (str_int (context_size a')) = Some (context_size a') \<and>
   (chat_launch_config w argv = Some (m, a) \<and> is_file w (str_path (chat_args.model a))
      \<longrightarrow> Spawn (chat_command m a) \<in> set (events (chat_main w argv))) \<and>
   (ocr_launch_config k w argv' = Some (m', a') \<and> ocr_files_exist w a'
      \<longrightarrow> hd (events (ocr_main k w argv')) = Spawn (ocr_command m' a'))"
proof -
  have s: "str_int 16384 = ''16384''"
    by (rule str_int_samples)
  have c: "hd (chat_command m a) = LLAMA_SERVER_EXECUTABLE m \<and>
   option_pairs (take 16 (tl (chat_command m a))) =
     [(''-m'', str_path (chat_args.model a)),
      (''--port'', str_int (port a)),
      (''-ngl'', str_int (n_gpu_layers a)),
      (''-c'', str_int (chat_args.context_size a)),
      (''-b'', str_int (batch_size a)),
      (''-ub'', str_int (ubatch_size a)),
      (''-ctk'', chat_args.cache_type_k a),
      (''-ctv'', chat_args.cache_type_v a)] \<and>
   distinct (map fst (option_pairs (take 16 (tl (chat_command m a))))) \<and>
   distinct (chat_toggles (chat_command m a)) \<and>
   chat_command m a =
     hd (chat_command m a) # take 16 (tl (chat_command m a)) @ chat_toggles (chat_command m a)"
    by (simp add: chat_command_def chat_toggles_def)
  have o: "hd (ocr_command m' a') = LLAMA_CLI_EXECUTABLE m' \<and>
   option_pairs (take 22 (tl (ocr_command m' a'))) =
     [(''-m'', str_path (model a')),
      (''--mmproj'', str_path (mmproj a')),
      (''--image'', str_path (image a')),
      (''-p'', PROMPT m'),
      (''-ngl'', str_int (ngl a')),
      (''--threads'', str_int (threads a')),
      (''-c'', str_int (context_size a')),
      (''-n'', str_int (n_predict a')),
      (''--temp'', temp a'),
      (''-ctk'', cache_type_k a'),
      (''-ctv'', cache_type_v a')] \<and>
   distinct (map fst (option_pairs (take 22 (tl (ocr_command m' a'))))) \<and>
   distinct (ocr_toggles (ocr_command m' a')) \<and>
   ocr_command m' a' =
     hd (ocr_command m' a') # take 22 (tl (ocr_command m' a')) @ ocr_toggles (ocr_command m' a')"
    by (simp add: ocr_command_def ocr_toggles_def)
  have r: "chat_launch_config w argv = Some (m, a) \<and> is_file w (str_path (chat_args.model a))
      \<longrightarrow> Spawn (chat_command m a) \<in> set (events (chat_main w argv))"
    by (simp add: chat_main_run chat_run_spawns)
  have r': "ocr_launch_config k w argv' = Some (m', a') \<and> ocr_files_exist w a'
      \<longrightarrow> hd (events (ocr_main k w argv')) = Spawn (ocr_command m' a')"
    by (simp add: ocr_main_run ocr_run_execute ocr_execute_first_event)
  have p: "py_int (str_int (chat_args.context_size a)) = Some (chat_args.context_size a)"
    and p': "py_int (str_int (context_size a')) = Some (context_size a')"
    by (rule py_int_str_int)+
  from c o s p p' r r' show ?thesis
    by blast
qed

theorem command_is_rendered_in_order_witness:
  "(''-c'', ''16384'') \<in> set (option_pairs (take 22 (tl
      (ocr_command (sample_ocr_module Ocr_meta) (ocr_defaults (sample_ocr_module Ocr_meta)))))) \<and>
   Spawn (chat_command sample_chat_module (chat_defaults sample_chat_module)) \<in>
     set (events (chat_main (sample_world [] (Ended 0 [] [])) [])) \<and>
   hd (events (ocr_main Ocr_meta (sample_world [] (Ended 0 [] [])) [])) =
     Spawn (ocr_command (sample_ocr_module Ocr_meta) (ocr_defaults (sample_ocr_module Ocr_meta)))"
proof -
  let ?w = "sample_world [] (Ended 0 [] [])"
  let ?m = "sample_chat_module"
  let ?m' = "sample_ocr_module Ocr_meta"
  have f: "is_file ?w (str_path (chat_args.model (chat_defaults ?m)))"
    by (simp add: sample_chat_model_file sample_world_simps)
  have x: "context_size (ocr_defaults ?m') = 16384"
    by (simp add: ocr_defaults_def sample_ocr_module_def)
  note r = command_is_rendered_in_order [where m = ?m and a = "chat_defaults ?m" and m' = ?m'
      and a' = "ocr_defaults ?m'" and w = ?w and argv = "[]" and k = Ocr_meta and argv' = "[]"]
  have "option_pairs (take 22 (tl (ocr_command ?m' (ocr_defaults ?m')))) =
     [(''-m'', str_path (model (ocr_defaults ?m'))),
      (''--mmproj'', str_path (mmproj (ocr_defaults ?m'))),
      (''--image'', str_path (image (ocr_defaults ?m'))),
      (''-p'', PROMPT ?m'),
      (''-ngl'', str_int (ngl (ocr_defaults ?m'))),
      (''--threads'', str_int (threads (ocr_defaults ?m'))),
      (''-c'', str_int (context_size (ocr_defaults ?m'))),
      (''-n'', str_int (n_predict (ocr_defaults ?m'))),
      (''--temp'', temp (ocr_defaults ?m')),
      (''-ctk'', cache_type_k (ocr_defaults ?m')),
      (''-ctv'', cache_type_v (ocr_defaults ?m'))]"
    using r by blast
  then have a: "(''-c'', ''16384'') \<in> set (option_pairs (take 22 (tl
      (ocr_command ?m' (ocr_defaults ?m')))))"
    by (simp add: x str_int_samples)
  have b: "Spawn (chat_command ?m (chat_defaults ?m)) \<in> set (events (chat_main ?w []))"
    using r sample_chat_config [of "Ended 0 [] []"] f by blast
  have c: "hd (events (ocr_main Ocr_meta ?w [])) = Spawn (ocr_command ?m' (ocr_defaults ?m'))"
    using r sample_ocr_config [of Ocr_meta "Ended 0 [] []"] sample_ocr_files [of "Ended 0 [] []" Ocr_meta]
    by blast
  from a b c show ?thesis
    by (intro conjI)
qed

subsection \<open>The library models at their edges\<close>

lemma exit_status_wraps:
  "exit_status (SysExit (- 9)) = 247" "exit_status (SysExit 256) = 0"
  "exit_status (SysExit 255) = 255"
  by simp_all

lemma int_keeps_separators:
  "py_int [CHR 0x1F, CHR ''8'', CHR ''0'', CHR ''8'', CHR ''0'', CHR 0x1C] = None"
  "strip [CHR 0x1F, CHR ''8'', CHR ''0'', CHR ''8'', CHR ''0'', CHR 0x1C] = ''8080''"
  "py_int [CHR 0x09, CHR ''8'', CHR ''0'', CHR ''8'', CHR ''0'', CHR 0xA0] = Some 8080"
  by (simp_all add: py_int_def int_strip_def int_space_def py_nat_def digit_val_def
      strip_def lstrip_def rstrip_def isspace_def)

lemma killed_child_status:
  "exit_status (ending (chat_main (sample_world [] (Ended (- 9) [] [])) [])) = 247"
proof -
  let ?w = "sample_world [] (Ended (- 9) [] [])"
  have f: "is_file ?w (str_path (chat_args.model (chat_defaults sample_chat_module)))"
    by (simp add: sample_chat_model_file sample_world_simps)
  have "chat_main ?w [] = chat_run ?w sample_chat_module (chat_defaults sample_chat_module)"
    using sample_chat_config [of "Ended (- 9) [] []"] by (rule chat_main_run)
  with f show ?thesis
    by (simp add: chat_run_def Let_def sample_run)
qed

end
